theory Spec2Isabelle
  imports Main "HOL-Library.Word"
begin

unbundle bit_operations_syntax

section \<open>Values shared by the packages\<close>

text \<open>
  Go's \<^verbatim>\<open>string\<close> and \<^verbatim>\<open>[]byte\<close> are byte sequences. Strings are modelled as
  \<^typ>\<open>string\<close> (one \<^typ>\<open>char\<close> per byte), byte slices as lists of 8-bit words, and
  the conversion \<^verbatim>\<open>string(b)\<close> of a byte slice is \<open>string_of_bytes\<close>.
  Go's \<^verbatim>\<open>int\<close> and \<^verbatim>\<open>int64\<close> are 64-bit words read with \<^const>\<open>sint\<close>;
  \<^verbatim>\<open>uint64\<close> is a 64-bit word read with \<^const>\<open>uint\<close>.
\<close>

type_synonym byte = "8 word"
type_synonym go_int = "64 word"
type_synonym uint64 = "64 word"

definition string_of_bytes :: "byte list \<Rightarrow> string" where
  "string_of_bytes bs = map (\<lambda>b. char_of (unat b)) bs"

text \<open>A Go \<^verbatim>\<open>error\<close> value; \<^verbatim>\<open>nil\<close> is \<open>None\<close> of \<open>error option\<close>.\<close>

datatype error =
    errors_New string
  | sql_ErrNoRows
  | RecursionLimit
  | PeerUnreachable
  | PeerDisconnected
  | io_EOF
  | external_error string
  | runtime_panic string

subsection \<open>strconv.Itoa and the conversion string(int)\<close>

definition digit_char :: "nat \<Rightarrow> char" where
  "digit_char d = char_of (48 + d)"

fun nat_digits :: "nat \<Rightarrow> string" where
  "nat_digits n = (if n < 10 then [digit_char n] else nat_digits (n div 10) @ [digit_char (n mod 10)])"

declare nat_digits.simps [simp del]

definition Itoa :: "go_int \<Rightarrow> string" where
  "Itoa i = (if sint i < 0 then CHR ''-'' # nat_digits (nat (- sint i)) else nat_digits (nat (sint i)))"

text \<open>
  \<^verbatim>\<open>string(i)\<close> for an integer \<open>i\<close> is the UTF-8 encoding of the code point \<open>i\<close>;
  a value that is no valid code point (negative, a surrogate, above U+10FFFF) becomes
  U+FFFD, the three bytes EF BF BD.
\<close>

definition string_of_rune :: "go_int \<Rightarrow> string" where
  "string_of_rune i =
     (let r = sint i in
      if r < 0 \<or> r > 1114111 \<or> (55296 \<le> r \<and> r \<le> 57343) then
        [char_of (239::int), char_of (191::int), char_of (189::int)]
      else if r \<le> 127 then [char_of r]
      else if r \<le> 2047 then [char_of (192 + r div 64), char_of (128 + r mod 64)]
      else if r \<le> 65535 then
        [char_of (224 + r div 4096), char_of (128 + (r div 64) mod 64), char_of (128 + r mod 64)]
      else
        [char_of (240 + r div 262144), char_of (128 + (r div 4096) mod 64),
         char_of (128 + (r div 64) mod 64), char_of (128 + r mod 64)])"

section \<open>Package dht: addresses and entries\<close>

text \<open>An \<^verbatim>\<open>Address\<close> is a struct with the single field \<^verbatim>\<open>Raw []byte\<close>.\<close>

record Address =
  Raw :: "byte list"

text \<open>
  The functions of the program that are not among the sources: the Ed25519
  signature check of the cryptographic library, the textual encoding of addresses
  (\<^verbatim>\<open>Address.String\<close> with its Go result \<^verbatim>\<open>(string, error)\<close>, and
  \<^verbatim>\<open>DecodeAddress\<close>). Every operation below takes them as a parameter.
  \<open>ed25519_Verify\<close> is the result of a call of \<^verbatim>\<open>ed25519.Verify\<close> that returns; the
  library's refusal of a public key that is not 32 bytes long is outside the model.
\<close>

record deps =
  ed25519_Verify :: "byte list \<Rightarrow> string \<Rightarrow> byte list \<Rightarrow> bool"
  Address_String :: "Address \<Rightarrow> string \<times> error option"
  DecodeAddress :: "string \<Rightarrow> error + Address"

definition MaxEntryNameLength :: nat where "MaxEntryNameLength = 32"
definition MaxEntryDescLength :: nat where "MaxEntryDescLength = 160"
definition MaxEntryPublicAddressLength :: nat where "MaxEntryPublicAddressLength = 253"
definition MaxEntrySeeds :: nat where "MaxEntrySeeds = 100000"
definition ed25519_PublicKeySize :: nat where "ed25519_PublicKeySize = 32"
definition ed25519_SignatureSize :: nat where "ed25519_SignatureSize = 64"

record Entry =
  Address :: Address
  Name :: string
  Desc :: string
  PublicAddress :: string
  PublicKey :: "byte list"
  PostCount :: go_int
  Updated :: uint64
  Signature :: "byte list"
  CollectionHash :: "byte list"
  Port :: go_int
  Seeds :: "byte list list"
  Seeding :: "byte list list"
  Seen :: go_int

text \<open>
  \<^verbatim>\<open>Entry.String\<close>: the error of \<^verbatim>\<open>Address.String\<close> is returned with the empty
  string; otherwise the fields are appended in the order of the source. The pair is the
  Go result \<^verbatim>\<open>(string, error)\<close>.
\<close>

definition Entry_String :: "deps \<Rightarrow> Entry \<Rightarrow> string \<times> error option" where
  "Entry_String d e =
     (let (addressString, err) = Address_String d (Address e) in
      if err \<noteq> None then ('''', err)
      else
        (let postCount = Itoa (PostCount e);
             updated = Itoa (Updated e);
             str = addressString;
             str = str @ Name e;
             str = str @ Desc e;
             str = str @ PublicAddress e;
             str = str @ string_of_bytes (PublicKey e);
             str = str @ string_of_rune (Port e);
             str = str @ postCount;
             str = str @ updated;
             str = str @ string_of_bytes (CollectionHash e);
             str = foldl (\<lambda>s i. s @ string_of_bytes i) str (Seeding e)
         in (str, None)))"

definition Entry_Bytes :: "deps \<Rightarrow> Entry \<Rightarrow> string \<times> error option" where
  "Entry_Bytes d e = Entry_String d e"

text \<open>
  \<^verbatim>\<open>Entry.Verify\<close> has a pointer receiver: \<open>None\<close> is the nil pointer. The checks
  are in the order of the source; the error of \<^verbatim>\<open>Bytes\<close> is dropped, as there.
\<close>

definition Verify :: "deps \<Rightarrow> Entry option \<Rightarrow> error option" where
  "Verify d p =
     (case p of
        None \<Rightarrow> Some (errors_New ''Entry is nil'')
      | Some entry \<Rightarrow>
          if length (Raw (Address entry)) \<noteq> 20 then Some (errors_New ''Address size invalid'')
          else if length (Name entry) > MaxEntryNameLength then
            Some (errors_New ''Entry name is too long'')
          else if length (Desc entry) > MaxEntryDescLength then
            Some (errors_New ''Entry description is too long'')
          else if length (Seeds entry) > MaxEntrySeeds then
            Some (errors_New ''Entry has too many seeds'')
          else if length (PublicKey entry) < ed25519_PublicKeySize then
            Some (errors_New (''Public key too small: '' @ nat_digits (length (PublicKey entry))))
          else if length (Signature entry) < ed25519_SignatureSize then
            Some (errors_New ''Signature too small'')
          else
            (let data = fst (Entry_Bytes d entry);
                 verified = ed25519_Verify d (PublicKey entry) data (Signature entry)
             in if \<not> verified then Some (errors_New ''Failed to verify signature'')
                else if length (PublicAddress entry) = 0 then
                  Some (errors_New ''Public address must be set'')
                else if length (PublicAddress entry) \<ge> MaxEntryPublicAddressLength then
                  Some (errors_New ''Public address is too large (253 char max)'')
                else if 65535 <s Port entry then
                  Some (errors_New (''Port too large ('' @ string_of_rune (Port entry) @ '')''))
                else None))"


text \<open>
  The conjunction of the checks of \<^verbatim>\<open>Verify\<close> that come before the checks of the
  public address and of the port, as a predicate on the entry.
\<close>

definition earlier_checks :: "deps \<Rightarrow> Entry \<Rightarrow> bool" where
  "earlier_checks d e \<longleftrightarrow>
     length (Raw (Address e)) = 20 \<and> length (Name e) \<le> 32 \<and> length (Desc e) \<le> 160 \<and>
     length (Seeds e) \<le> 100000 \<and> 32 \<le> length (PublicKey e) \<and>
     64 \<le> length (Signature e) \<and>
     ed25519_Verify d (PublicKey e) (fst (Entry_Bytes d e)) (Signature e)"

text \<open>
  An instance of the external functions and a well-formed entry, used to run the
  definitions on concrete values: every signature is taken to be valid, and an address is
  written as the string of its raw bytes.
\<close>

definition example_deps :: deps where
  "example_deps =
     \<lparr> ed25519_Verify = (\<lambda>pk msg sg. True),
       Address_String = (\<lambda>a. (string_of_bytes (Raw a), None)),
       DecodeAddress = (\<lambda>s. Inr \<lparr> Raw = map of_char s \<rparr>) \<rparr>"

definition example_entry :: Entry where
  "example_entry =
     \<lparr> Address = \<lparr> Raw = replicate 20 0 \<rparr>, Name = ''n'', Desc = ''d'',
       PublicAddress = ''a'', PublicKey = replicate 32 0, PostCount = 0, Updated = 0,
       Signature = replicate 64 0, CollectionHash = [], Port = 5050, Seeds = [],
       Seeding = [], Seen = 0 \<rparr>"

subsection \<open>The address algebra\<close>

text \<open>
  Modelled from the spec: the file of package dht that defines \<^verbatim>\<open>Address.Equals\<close>,
  \<^verbatim>\<open>Address.Xor\<close>, \<^verbatim>\<open>Address.LeadingZeroes\<close>, \<^verbatim>\<open>Address.Less\<close> and the constant
  \<^verbatim>\<open>AddressBinarySize\<close> is missing from the sources. The spec gives an address of 20
  raw bytes, \<open>xor(a,b)\<close> as the distance, \<open>leading_zero_bits(d)\<close> as the bucket index
  and the lexicographic order on distances.
\<close>

definition AddressBinarySize :: nat where "AddressBinarySize = 20"

definition Equals :: "Address \<Rightarrow> Address \<Rightarrow> bool" where
  "Equals a b \<longleftrightarrow> Raw a = Raw b"

definition Xor :: "Address \<Rightarrow> Address \<Rightarrow> Address" where
  "Xor a b = \<lparr> Raw = map2 (\<lambda>x y. x XOR y) (Raw a) (Raw b) \<rparr>"

definition byte_leading_zeroes :: "byte \<Rightarrow> nat" where
  "byte_leading_zeroes b = length (takeWhile (\<lambda>j. \<not> bit b (7 - j)) [0..<8])"

fun leading_zero_bits :: "byte list \<Rightarrow> nat" where
  "leading_zero_bits [] = 0"
| "leading_zero_bits (b # bs) =
     (if b = 0 then 8 + leading_zero_bits bs else byte_leading_zeroes b)"

definition LeadingZeroes :: "Address \<Rightarrow> nat" where
  "LeadingZeroes a = leading_zero_bits (Raw a)"

fun bytes_less :: "byte list \<Rightarrow> byte list \<Rightarrow> bool" where
  "bytes_less (x # xs) (y # ys) = (x < y \<or> (x = y \<and> bytes_less xs ys))"
| "bytes_less [] (y # ys) = True"
| "bytes_less xs [] = False"

definition Less :: "Address \<Rightarrow> Address \<Rightarrow> bool" where
  "Less a b = bytes_less (Raw a) (Raw b)"

section \<open>Package dht: the entry store NetDB\<close>

subsection \<open>The SQL store\<close>

text \<open>
  The rows of the tables \<^verbatim>\<open>entry\<close>, \<^verbatim>\<open>seed\<close> and \<^verbatim>\<open>ftsEntry\<close> created by the
  statements of the source. \<open>failing\<close> is the I/O state of the connection: when it holds
  an error, every statement returns that error.
\<close>

record entry_row =
  r_id :: int
  r_address :: string
  r_name :: string
  r_desc :: string
  r_publicAddress :: string
  r_port :: go_int
  r_publicKey :: "byte list"
  r_signature :: "byte list"
  r_collectionHash :: "byte list"
  r_postCount :: go_int
  r_seedCount :: nat
  r_seedingCount :: nat
  r_updated :: uint64
  r_seen :: go_int

record seed_row =
  s_seed :: int
  s_for :: int

record DB =
  entry_tbl :: "entry_row list"
  seed_tbl :: "seed_row list"
  fts_tbl :: "(int \<times> string \<times> string) list"
  failing :: "error option"

text \<open>
  \<^verbatim>\<open>UPDATE entry SET ... WHERE address=?\<close>. The result is the new store and the number
  of affected rows, which for an SQL \<^verbatim>\<open>UPDATE\<close> is the number of rows that the
  \<^verbatim>\<open>WHERE\<close> clause selects, whether or not the assignment changes their values.
\<close>

definition sqlUpdateEntry :: "DB \<Rightarrow> Entry \<Rightarrow> string \<Rightarrow> error + (DB \<times> int)" where
  "sqlUpdateEntry db e a =
     (case failing db of
        Some err \<Rightarrow> Inl err
      | None \<Rightarrow>
          Inr (db\<lparr>entry_tbl :=
                   map (\<lambda>r. if r_address r = a then
                                r\<lparr>r_name := Name e, r_desc := Desc e,
                                  r_publicAddress := PublicAddress e, r_port := Port e,
                                  r_publicKey := PublicKey e, r_signature := Signature e,
                                  r_collectionHash := CollectionHash e,
                                  r_postCount := PostCount e,
                                  r_seedCount := length (Seeds e),
                                  r_seedingCount := length (Seeding e),
                                  r_updated := Updated e, r_seen := Seen e\<rparr>
                              else r) (entry_tbl db)\<rparr>,
               int (length (filter (\<lambda>r. r_address r = a) (entry_tbl db)))))"

text \<open>
  \<^verbatim>\<open>INSERT OR IGNORE INTO entry (...)\<close>: the column \<^verbatim>\<open>address\<close> is \<^verbatim>\<open>UNIQUE\<close>, so
  a row with the same address makes the statement a no-op with 0 affected rows. A new row
  gets the next integer primary key. The result is the store, the affected rows and the
  last insert id.
\<close>

definition next_id :: "DB \<Rightarrow> int" where
  "next_id db = fold max (map r_id (entry_tbl db)) 0 + 1"

definition sqlInsertEntry :: "DB \<Rightarrow> Entry \<Rightarrow> string \<Rightarrow> error + (DB \<times> int \<times> int)" where
  "sqlInsertEntry db e a =
     (case failing db of
        Some err \<Rightarrow> Inl err
      | None \<Rightarrow>
          if \<exists>r \<in> set (entry_tbl db). r_address r = a then Inr (db, 0, 0)
          else
            Inr (db\<lparr>entry_tbl := entry_tbl db @
                       [\<lparr>r_id = next_id db, r_address = a, r_name = Name e, r_desc = Desc e,
                         r_publicAddress = PublicAddress e, r_port = Port e,
                         r_publicKey = PublicKey e, r_signature = Signature e,
                         r_collectionHash = CollectionHash e, r_postCount = PostCount e,
                         r_seedCount = length (Seeds e), r_seedingCount = length (Seeding e),
                         r_updated = Updated e, r_seen = Seen e\<rparr>]\<rparr>,
                 1, next_id db))"

text \<open>\<^verbatim>\<open>INSERT OR IGNORE INTO ftsEntry (docid, name, desc)\<close>.\<close>

definition sqlInsertFtsEntry :: "DB \<Rightarrow> int \<Rightarrow> string \<Rightarrow> string \<Rightarrow> error + DB" where
  "sqlInsertFtsEntry db i n ds =
     (case failing db of
        Some err \<Rightarrow> Inl err
      | None \<Rightarrow>
          if \<exists>f \<in> set (fts_tbl db). fst f = i then Inr db
          else Inr (db\<lparr>fts_tbl := fts_tbl db @ [(i, n, ds)]\<rparr>))"

text \<open>\<^verbatim>\<open>SELECT * FROM entry WHERE address=?\<close>, read with \<^verbatim>\<open>QueryRow\<close> and \<^verbatim>\<open>Scan\<close>.\<close>

definition sqlQueryAddress :: "DB \<Rightarrow> string \<Rightarrow> error + entry_row" where
  "sqlQueryAddress db a =
     (case failing db of
        Some err \<Rightarrow> Inl err
      | None \<Rightarrow>
          (case filter (\<lambda>r. r_address r = a) (entry_tbl db) of
             [] \<Rightarrow> Inl sql_ErrNoRows
           | r # _ \<Rightarrow> Inr r))"

text \<open>\<^verbatim>\<open>SELECT id FROM entry WHERE address=?\<close>.\<close>

definition sqlQueryIdByAddress :: "DB \<Rightarrow> string \<Rightarrow> error + int" where
  "sqlQueryIdByAddress db a =
     (case sqlQueryAddress db a of Inl err \<Rightarrow> Inl err | Inr r \<Rightarrow> Inr (r_id r))"

text \<open>
  \<^verbatim>\<open>INSERT OR IGNORE INTO seed (seed, for)\<close>, on a table with \<^verbatim>\<open>UNIQUE(seed, for)\<close>.
\<close>

definition sqlInsertSeed :: "DB \<Rightarrow> int \<Rightarrow> int \<Rightarrow> error + DB" where
  "sqlInsertSeed db sd fr =
     (case failing db of
        Some err \<Rightarrow> Inl err
      | None \<Rightarrow>
          if \<exists>r \<in> set (seed_tbl db). s_seed r = sd \<and> s_for r = fr then Inr db
          else Inr (db\<lparr>seed_tbl := seed_tbl db @ [\<lparr>s_seed = sd, s_for = fr\<rparr>]\<rparr>))"

text \<open>
  \<^verbatim>\<open>SELECT entry.address FROM entry JOIN seed ON entry.id = seed.seed WHERE seed.for = ?\<close>
  and the same statement with the two columns of \<^verbatim>\<open>seed\<close> exchanged. The rows come in
  the order of the seed table.
\<close>

definition sqlQuerySeeds :: "DB \<Rightarrow> int \<Rightarrow> error + string list" where
  "sqlQuerySeeds db i =
     (case failing db of
        Some err \<Rightarrow> Inl err
      | None \<Rightarrow>
          Inr (concat (map (\<lambda>s. map r_address (filter (\<lambda>r. r_id r = s_seed s) (entry_tbl db)))
                         (filter (\<lambda>s. s_for s = i) (seed_tbl db)))))"

definition sqlQuerySeeding :: "DB \<Rightarrow> int \<Rightarrow> error + string list" where
  "sqlQuerySeeding db i =
     (case failing db of
        Some err \<Rightarrow> Inl err
      | None \<Rightarrow>
          Inr (concat (map (\<lambda>s. map r_address (filter (\<lambda>r. r_id r = s_for s) (entry_tbl db)))
                         (filter (\<lambda>s. s_seed s = i) (seed_tbl db)))))"

subsection \<open>The routing table\<close>

text \<open>
  \<^verbatim>\<open>table [][]Address\<close> is a slice of slices, and \<^verbatim>\<open>insertIntoTable\<close> removes an
  address from a bucket by an \<^verbatim>\<open>append\<close> that shifts the elements of the backing array
  in place, while a caller may still range over the old slice. The backing arrays are
  therefore kept in an explicit store: \<open>arrays\<close> maps an array number to its elements, and
  a bucket is a slice header, the pair of an array number and a length. Only the first
  \<open>len\<close> elements of an array are ever read or written, so its capacity is not modelled.
  \<^verbatim>\<open>SaveTable\<close> writes the table to a file and has no effect on the state.
\<close>

definition BucketSize :: nat where "BucketSize = 20"

type_synonym slice = "nat \<times> nat"

record NetDB =
  arrays :: "Address list list"
  table :: "slice list"
  addr :: Address
  conn :: DB



text \<open>
  \<^verbatim>\<open>NewNetDB\<close>, without the preparation of the SQL statements: 160 buckets, each an
  empty slice on an array of its own, and the store \<open>db\<close> that the path opens.
\<close>

definition NewNetDB :: "Address \<Rightarrow> DB \<Rightarrow> NetDB" where
  "NewNetDB a db =
     \<lparr> arrays = replicate (AddressBinarySize * 8) [],
       table = map (\<lambda>n. (n, 0)) [0..<AddressBinarySize * 8],
       addr = a, conn = db \<rparr>"

text \<open>The search loop of \<^verbatim>\<open>insertIntoTable\<close>: the first position of the address.\<close>

fun find_address :: "Address \<Rightarrow> Address list \<Rightarrow> nat option" where
  "find_address a [] = None"
| "find_address a (i # bucket) =
     (if Equals i a then Some 0 else map_option Suc (find_address a bucket))"

text \<open>
  \<^verbatim>\<open>append(bucket[:found], bucket[found+1:]...)\<close> on the array \<open>arr\<close> of a slice of
  length \<open>n\<close>: the elements after \<open>found\<close> move one place down inside the array, and
  the place \<open>n - 1\<close> keeps its element.
\<close>

definition shift_out :: "nat \<Rightarrow> nat \<Rightarrow> Address list \<Rightarrow> Address list" where
  "shift_out found n arr = take found arr @ drop (found + 1) (take n arr) @ drop (n - 1) arr"

text \<open>
  \<^verbatim>\<open>insertIntoTable\<close>. An index outside the table is the run-time panic of Go. The new
  bucket \<^verbatim>\<open>append([]Address{addr}, bucket...)\<close> is a fresh array.
\<close>

definition insertIntoTable :: "NetDB \<Rightarrow> Address \<Rightarrow> error + NetDB" where
  "insertIntoTable ndb a =
     (let index = LeadingZeroes (Xor a (addr ndb)) in
      if index \<ge> length (table ndb) then Inl (runtime_panic ''index out of range'')
      else
        (let (p, n) = table ndb ! index;
             arr = arrays ndb ! p;
             found = find_address a (take n arr);
             (arr', n') =
               (case found of
                  Some f \<Rightarrow> (shift_out f n arr, n - 1)
                | None \<Rightarrow> if n = BucketSize then (arr, n - 1) else (arr, n));
             fresh = a # take n' arr';
             arrays' = (arrays ndb)[p := arr'] @ [fresh]
         in Inr (ndb\<lparr>arrays := arrays',
                     table := (table ndb)[index := (length (arrays ndb), Suc n')]\<rparr>)))"



subsection \<open>Operations on the store\<close>

text \<open>
  A function that can panic returns \<open>Inl\<close> of the panic; otherwise \<open>Inr\<close> of its Go
  results and the new state. A Go result \<^verbatim>\<open>error\<close> is an \<open>error option\<close>, a result
  \<^verbatim>\<open>*Entry\<close> is an \<open>Entry option\<close> with \<open>None\<close> for nil.
\<close>

fun decode_addresses :: "deps \<Rightarrow> string list \<Rightarrow> Address list \<Rightarrow> Address list \<times> error option" where
  "decode_addresses d [] ret = (ret, None)"
| "decode_addresses d (address # rows) ret =
     (case DecodeAddress d address of
        Inl err \<Rightarrow> ([], Some err)
      | Inr a \<Rightarrow> decode_addresses d rows (ret @ [a]))"

definition querySeeds :: "deps \<Rightarrow> NetDB \<Rightarrow> int \<Rightarrow> Address list \<times> error option" where
  "querySeeds d ndb i =
     (case sqlQuerySeeds (conn ndb) i of
        Inl err \<Rightarrow> ([], Some err)
      | Inr rows \<Rightarrow> decode_addresses d rows [])"

definition querySeeding :: "deps \<Rightarrow> NetDB \<Rightarrow> int \<Rightarrow> Address list \<times> error option" where
  "querySeeding d ndb i =
     (case sqlQuerySeeding (conn ndb) i of
        Inl err \<Rightarrow> ([], Some err)
      | Inr rows \<Rightarrow> decode_addresses d rows [])"

text \<open>\<^verbatim>\<open>addSeedToEntry\<close> fills the entry behind the pointer; the entry is returned.\<close>

definition addSeedToEntry :: "deps \<Rightarrow> NetDB \<Rightarrow> Entry \<Rightarrow> int \<Rightarrow> Entry \<times> error option" where
  "addSeedToEntry d ndb e i =
     (let e = e\<lparr>Seeding := [], Seeds := []\<rparr>;
          (seeds, err) = querySeeds d ndb i
      in if err \<noteq> None then (e, err)
         else
           (let (seeding, err) = querySeeding d ndb i
            in if err \<noteq> None then (e, err)
               else (e\<lparr>Seeds := map Raw seeds, Seeding := map Raw seeding\<rparr>, None)))"

text \<open>
  \<^verbatim>\<open>NetDB.Query\<close>, with the results \<^verbatim>\<open>(*Entry, int, error)\<close>. A row that is found is
  inserted into the table again, which is where the function can panic.
\<close>

definition NetDB_Query ::
  "deps \<Rightarrow> NetDB \<Rightarrow> Address \<Rightarrow> error + ((Entry option \<times> int \<times> error option) \<times> NetDB)" where
  "NetDB_Query d ndb a =
     (let (addressString, err) = Address_String d a in
      if err \<noteq> None then Inr ((None, - 1, err), ndb)
      else
        (case sqlQueryAddress (conn ndb) addressString of
           Inl err \<Rightarrow>
             if err = sql_ErrNoRows then Inr ((None, - 1, None), ndb)
             else Inr ((None, - 1, Some err), ndb)
         | Inr row \<Rightarrow>
             (case DecodeAddress d (r_address row) of
                Inl err \<Rightarrow> Inr ((None, - 1, Some err), ndb)
              | Inr decoded \<Rightarrow>
                  (let ret = \<lparr> Address = \<lparr> Raw = Raw decoded \<rparr>, Name = r_name row,
                               Desc = r_desc row, PublicAddress = r_publicAddress row,
                               PublicKey = r_publicKey row, PostCount = r_postCount row,
                               Updated = r_updated row, Signature = r_signature row,
                               CollectionHash = r_collectionHash row, Port = r_port row,
                               Seeds = [], Seeding = [], Seen = r_seen row \<rparr>;
                       (ret, err) = addSeedToEntry d ndb ret (r_id row)
                   in if err \<noteq> None then Inr ((None, 0, err), ndb)
                      else
                        (case insertIntoTable ndb (Address ret) of
                           Inl pnc \<Rightarrow> Inl pnc
                         | Inr ndb' \<Rightarrow> Inr ((Some ret, r_id row, None), ndb'))))))"

text \<open>
  \<^verbatim>\<open>InsertSeed\<close>. The error of the first \<^verbatim>\<open>String\<close> call is overwritten by the
  second, as in the source.
\<close>

definition InsertSeed :: "deps \<Rightarrow> NetDB \<Rightarrow> Address \<Rightarrow> Address \<Rightarrow> error option \<times> NetDB" where
  "InsertSeed d ndb entry seed =
     (let (entryAddressString, err) = Address_String d entry;
          (seedAddressString, err) = Address_String d seed
      in if err \<noteq> None then (err, ndb)
         else
           (case sqlQueryIdByAddress (conn ndb) entryAddressString of
              Inl err \<Rightarrow> (Some err, ndb)
            | Inr entryId \<Rightarrow>
                (case sqlQueryIdByAddress (conn ndb) seedAddressString of
                   Inl err \<Rightarrow> (Some err, ndb)
                 | Inr seedId \<Rightarrow>
                     (case sqlInsertSeed (conn ndb) seedId entryId of
                        Inl err \<Rightarrow> (Some err, ndb)
                      | Inr db \<Rightarrow> (None, ndb\<lparr>conn := db\<rparr>)))))"

fun insert_seeding :: "deps \<Rightarrow> NetDB \<Rightarrow> Entry \<Rightarrow> byte list list \<Rightarrow> error option \<times> NetDB" where
  "insert_seeding d ndb entry [] = (None, ndb)"
| "insert_seeding d ndb entry (i # rest) =
     (let peer = \<lparr> Raw = i \<rparr>;
          (err, ndb) = InsertSeed d ndb peer (Address entry)
      in if err \<noteq> None then (err, ndb) else insert_seeding d ndb entry rest)"

fun insert_seeds :: "deps \<Rightarrow> NetDB \<Rightarrow> Entry \<Rightarrow> byte list list \<Rightarrow> error option \<times> NetDB" where
  "insert_seeds d ndb entry [] = (None, ndb)"
| "insert_seeds d ndb entry (i # rest) =
     (let peer = \<lparr> Raw = i \<rparr>;
          (err, ndb) = InsertSeed d ndb (Address entry) peer
      in if err \<noteq> None then (err, ndb) else insert_seeds d ndb entry rest)"

definition insertEntrySeeds :: "deps \<Rightarrow> NetDB \<Rightarrow> Entry \<Rightarrow> error option \<times> NetDB" where
  "insertEntrySeeds d ndb entry =
     (let (err, ndb) = insert_seeding d ndb entry (Seeding entry)
      in if err \<noteq> None then (err, ndb) else insert_seeds d ndb entry (Seeds entry))"

text \<open>\<^verbatim>\<open>insertIntoDB\<close>, with the results \<^verbatim>\<open>(int64, error)\<close>.\<close>

definition insertIntoDB :: "deps \<Rightarrow> NetDB \<Rightarrow> Entry \<Rightarrow> (int \<times> error option) \<times> NetDB" where
  "insertIntoDB d ndb entry =
     (let (addressString, err) = Address_String d (Address entry) in
      if err \<noteq> None then ((0, err), ndb)
      else
        (case sqlInsertEntry (conn ndb) entry addressString of
           Inl err \<Rightarrow> ((0, Some err), ndb)
         | Inr (db, affected, i) \<Rightarrow>
             if affected = 0 then ((0, None), ndb\<lparr>conn := db\<rparr>)
             else
               (case sqlInsertFtsEntry db i (Name entry) (Desc entry) of
                  Inl err \<Rightarrow> ((affected, Some err), ndb\<lparr>conn := db\<rparr>)
                | Inr db' \<Rightarrow> ((affected, None), ndb\<lparr>conn := db'\<rparr>))))"

text \<open>\<^verbatim>\<open>NetDB.Update\<close>, with the results \<^verbatim>\<open>(int64, error)\<close>.\<close>

definition Update :: "deps \<Rightarrow> NetDB \<Rightarrow> Entry \<Rightarrow> (int \<times> error option) \<times> NetDB" where
  "Update d ndb entry =
     (let err = Verify d (Some entry) in
      if err \<noteq> None then ((0, err), ndb)
      else
        (let (addressString, err) = Address_String d (Address entry) in
         if err \<noteq> None then ((0, err), ndb)
         else
           (case sqlUpdateEntry (conn ndb) entry addressString of
              Inl err \<Rightarrow> if err = sql_ErrNoRows then ((0, None), ndb) else ((0, Some err), ndb)
            | Inr (db, affected) \<Rightarrow> ((affected, None), ndb\<lparr>conn := db\<rparr>))))"

text \<open>\<^verbatim>\<open>NetDB.Insert\<close>, with the results \<^verbatim>\<open>(int64, error)\<close>.\<close>

definition Insert :: "deps \<Rightarrow> NetDB \<Rightarrow> Entry \<Rightarrow> error + ((int \<times> error option) \<times> NetDB)" where
  "Insert d ndb entry =
     (let err = Verify d (Some entry) in
      if err \<noteq> None then Inr ((0, err), ndb)
      else
        (case insertIntoTable ndb (Address entry) of
           Inl pnc \<Rightarrow> Inl pnc
         | Inr ndb \<Rightarrow>
             (let ((affected, err), ndb) = Update d ndb entry in
              if err \<noteq> None then Inr ((0, err), ndb)
              else if affected > 0 then Inr ((affected, None), ndb)
              else
                (let ((affected, err), ndb) = insertIntoDB d ndb entry in
                 if err \<noteq> None then Inr ((0, err), ndb)
                 else
                   (let (err, ndb) = insertEntrySeeds d ndb entry
                    in Inr ((affected, err), ndb))))))"

text \<open>
  A loop \<^verbatim>\<open>for _, i := range bucket\<close> whose body calls \<^verbatim>\<open>Query\<close>. The slice
  header \<open>(p, n)\<close> is read once; the element at each position is read from the array
  \<open>p\<close> as it is when the iteration reaches it, so the shift that
  \<^verbatim>\<open>insertIntoTable\<close> made in this array during an earlier iteration is seen. The list
  \<open>ks\<close> holds the positions still to visit. \<open>limit\<close> is the bound of the test
  \<^verbatim>\<open>len(ret) >= BucketSize\<close> that breaks the loop in \<^verbatim>\<open>FindClosest\<close>;
  \<^verbatim>\<open>queryAddresses\<close> has no such test. A failed query is skipped; a query that finds
  no row appends the nil pointer it returns.
\<close>

fun range_query ::
  "deps \<Rightarrow> nat option \<Rightarrow> nat \<Rightarrow> nat list \<Rightarrow> Entry option list \<Rightarrow> NetDB \<Rightarrow>
   error + (Entry option list \<times> NetDB)" where
  "range_query d limit p [] ret ndb = Inr (ret, ndb)"
| "range_query d limit p (k # ks) ret ndb =
     (if (case limit of Some l \<Rightarrow> length ret \<ge> l | None \<Rightarrow> False) then Inr (ret, ndb)
      else
        (case NetDB_Query d ndb (arrays ndb ! p ! k) of
           Inl pnc \<Rightarrow> Inl pnc
         | Inr ((kv, i, err), ndb') \<Rightarrow>
             if err \<noteq> None then range_query d limit p ks ret ndb'
             else range_query d limit p ks (ret @ [kv]) ndb'))"

definition queryAddresses :: "deps \<Rightarrow> NetDB \<Rightarrow> slice \<Rightarrow> error + (Entry option list \<times> NetDB)" where
  "queryAddresses d ndb as = range_query d None (fst as) [0..<snd as] [] ndb"

text \<open>
  The outer loop of \<^verbatim>\<open>FindClosest\<close>, from the value \<open>i\<close> of its counter. Reading a
  bucket outside the table is the run-time panic.
\<close>

function FindClosest_loop ::
  "deps \<Rightarrow> Address \<Rightarrow> nat \<Rightarrow> nat \<Rightarrow> Entry option list \<Rightarrow> NetDB \<Rightarrow>
   error + (Entry option list \<times> NetDB)" where
  "FindClosest_loop d a index i ret ndb =
     (if (i \<le> index \<or> index + i \<le> length (Raw a) * 8) \<and> length ret < BucketSize then
        (case
           (if i \<le> index then
              (if index - i \<ge> length (table ndb) then Inl (runtime_panic ''index out of range'')
               else
                 (let bucket = table ndb ! (index - i)
                  in range_query d (Some BucketSize) (fst bucket) [0..<snd bucket] ret ndb))
            else Inr (ret, ndb))
         of
           Inl pnc \<Rightarrow> Inl pnc
         | Inr (ret, ndb) \<Rightarrow>
             (case
                (if index + i < length (Raw a) * 8 then
                   (if index + i \<ge> length (table ndb) then
                      Inl (runtime_panic ''index out of range'')
                    else
                      (let bucket = table ndb ! (index + i)
                       in range_query d (Some BucketSize) (fst bucket) [0..<snd bucket] ret ndb))
                 else Inr (ret, ndb))
              of
                Inl pnc \<Rightarrow> Inl pnc
              | Inr (ret, ndb) \<Rightarrow> FindClosest_loop d a index (Suc i) ret ndb))
      else Inr (ret, ndb))"
  by pat_completeness auto
termination
  by (relation "measure (\<lambda>(d, a, index, i, ret, ndb). index + length (Raw a) * 8 + 1 - i)") auto

declare FindClosest_loop.simps [simp del]

text \<open>\<^verbatim>\<open>NetDB.FindClosest\<close>; its error result is always nil and is left out.\<close>

definition FindClosest :: "deps \<Rightarrow> NetDB \<Rightarrow> Address \<Rightarrow> error + (Entry option list \<times> NetDB)" where
  "FindClosest d ndb a =
     (let index = LeadingZeroes (Xor a (addr ndb)) in
      if index \<ge> length (table ndb) then Inl (runtime_panic ''index out of range'')
      else
        (let bucket = table ndb ! index in
         if snd bucket = BucketSize then queryAddresses d ndb bucket
         else FindClosest_loop d a index 0 [] ndb))"

section \<open>Package proto: messages and the client of a stream\<close>

text \<open>
  A message with its header and content; \<open>Stream\<close> is the connection that
  \<^verbatim>\<open>ReadMessage\<close> records in the message (connections are numbered), \<open>From\<close> the
  address that the server records. The back pointer \<^verbatim>\<open>Client\<close> of a message is
  passed to a handler as an argument instead.
\<close>

record Message =
  Header :: string
  Content :: "byte list"
  Stream :: "nat option"
  From :: "Address option"

text \<open>
  Modelled from the spec: the file with the header constants of package proto is missing
  from the sources; the spec lists the headers \<open>no\<close> and \<open>dht.query\<close>.
\<close>

definition ProtoNo :: string where "ProtoNo = ''no''"
definition ProtoDhtQuery :: string where "ProtoDhtQuery = ''dht.query''"

text \<open>
  The input side of a \<^verbatim>\<open>net.Conn\<close>: what the successive calls of \<^verbatim>\<open>Read\<close> find, a
  piece of data or an error. A call with a buffer of \<open>k\<close> bytes takes at most \<open>k\<close>
  bytes of the first piece; the end of the input is \<^verbatim>\<open>io.EOF\<close>.
\<close>

datatype chunk = Data "byte list" | ReadError error

fun conn_Read :: "chunk list \<Rightarrow> nat \<Rightarrow> (byte list \<times> error option) \<times> chunk list" where
  "conn_Read [] k = (([], Some io_EOF), [])"
| "conn_Read (ReadError e # rest) k = (([], Some e), rest)"
| "conn_Read (Data bs # rest) k =
     ((take k bs, None), if k < length bs then Data (drop k bs) # rest else rest)"

text \<open>The bytes that a connection still holds.\<close>

fun pending :: "chunk list \<Rightarrow> nat" where
  "pending [] = 0"
| "pending (Data bs # rest) = length bs + pending rest"
| "pending (ReadError e # rest) = pending rest"

text \<open>
  \<^verbatim>\<open>io.LimitedReader.Read\<close> of the Go library, on the budget \<open>N\<close> and the reader
  \<open>R\<close>: with no budget left it returns \<^verbatim>\<open>io.EOF\<close>; otherwise it cuts the buffer to
  \<open>N\<close> bytes, reads, and takes the bytes read off the budget.
\<close>

definition LimitedReader_Read ::
  "int \<Rightarrow> chunk list \<Rightarrow> nat \<Rightarrow> (byte list \<times> error option) \<times> int \<times> chunk list" where
  "LimitedReader_Read N R k =
     (if N \<le> 0 then (([], Some io_EOF), N, R)
      else
        (let k = (if int k > N then nat N else k);
             ((bs, err), R') = conn_Read R k
         in ((bs, err), N - int (length bs), R')))"

text \<open>
  The msgpack decoder is a library outside the sources. One call of \<^verbatim>\<open>Decode\<close> is a
  resumption: it is finished, with a message or an error and the new state of the
  decoder (its buffer), or it asks its reader for up to \<open>k\<close> bytes and goes on with what
  the reader returns. \<open>run_decoding\<close> runs it on a limited reader.
\<close>

datatype ('s, 'm) decoding =
    Decoded "error + 'm" 's
  | Read nat "byte list \<times> error option \<Rightarrow> ('s, 'm) decoding"

primrec run_decoding ::
  "('s, 'm) decoding \<Rightarrow> int \<Rightarrow> chunk list \<Rightarrow> ((error + 'm) \<times> 's) \<times> int \<times> chunk list" where
  "run_decoding (Decoded r s) = (\<lambda>N R. ((r, s), N, R))"
| "run_decoding (Read k cont) =
     (\<lambda>N R. let (got, N', R') = LimitedReader_Read N R k in run_decoding (cont got) N' R')"

text \<open>
  A client: the connection \<^verbatim>\<open>conn\<close> with its number, its input, the messages encoded
  to it and the error that a write to it meets, if any; the budget \<open>N\<close> of the limiter
  and the state of the decoder, \<open>None\<close> for a nil pointer.
\<close>

record 's Client =
  conn_id :: nat
  conn_in :: "chunk list"
  conn_out :: "Message list"
  conn_err :: "error option"
  limiter :: "int option"
  decoder :: "'s option"

text \<open>
  \<^verbatim>\<open>NewClient\<close>; \<open>mms\<close> is the constant \<^verbatim>\<open>common.MaxMessageSize\<close>, which is not
  in the sources, and \<open>nd\<close> the state of a new decoder.
\<close>

definition NewClient :: "int \<Rightarrow> 's \<Rightarrow> nat \<Rightarrow> chunk list \<Rightarrow> 's Client" where
  "NewClient mms nd i input =
     \<lparr> conn_id = i, conn_in = input, conn_out = [], conn_err = None,
       limiter = Some mms, decoder = Some nd \<rparr>"

text \<open>\<^verbatim>\<open>WriteMessage\<close>, on a pointer to a client.\<close>

fun WriteMessage :: "'s Client option \<Rightarrow> Message \<Rightarrow> error option \<times> 's Client option" where
  "WriteMessage None v = (Some (errors_New ''Client nil''), None)"
| "WriteMessage (Some c) v =
     (case conn_err c of
        Some err \<Rightarrow> (Some err, Some c)
      | None \<Rightarrow> (None, Some (c\<lparr>conn_out := conn_out c @ [v]\<rparr>)))"

text \<open>
  \<^verbatim>\<open>ReadMessage\<close>, with the results \<^verbatim>\<open>(*Message, error)\<close>. \<open>Decode\<close> is the call
  \<^verbatim>\<open>c.decoder.Decode(&msg)\<close> from a state of the decoder.
\<close>

definition ReadMessage ::
  "int \<Rightarrow> 's \<Rightarrow> ('s \<Rightarrow> ('s, Message) decoding) \<Rightarrow> 's Client \<Rightarrow>
   (Message option \<times> error option) \<times> 's Client" where
  "ReadMessage mms nd Decode c =
     (let c = (if limiter c = None then c\<lparr>limiter := Some mms\<rparr> else c);
          c = (if decoder c = None then c\<lparr>decoder := Some nd\<rparr> else c);
          ((r, s), N, R) = run_decoding (Decode (the (decoder c))) (the (limiter c)) (conn_in c);
          c = c\<lparr>decoder := Some s, limiter := Some N, conn_in := R\<rparr>
      in case r of
           Inl err \<Rightarrow> ((None, Some err), c\<lparr>limiter := Some mms\<rparr>)
         | Inr msg \<Rightarrow>
             ((Some (msg\<lparr>Stream := Some (conn_id c)\<rparr>), None), c\<lparr>limiter := Some mms\<rparr>))"

text \<open>
  \<^verbatim>\<open>Message.Write\<close> and \<^verbatim>\<open>Message.Read\<close> are missing from the sources. They are
  parameters: the encoding of a pointer to an entry (nil is \<open>None\<close>) and of an address
  into the content of a message, and the decoding of a content.
\<close>

record codec =
  Write_Entry :: "Entry option \<Rightarrow> error + byte list"
  Write_Address :: "Address \<Rightarrow> error + byte list"
  Read_Entry :: "byte list \<Rightarrow> error + Entry"
  Read_Address :: "byte list \<Rightarrow> error + Address"

text \<open>
  \<^verbatim>\<open>Client.Query\<close>, with the results \<^verbatim>\<open>(*dht.Entry, error)\<close>. \<open>query_reply\<close> is
  its part after the reply has been read.
\<close>

definition query_reply :: "deps \<Rightarrow> codec \<Rightarrow> Message \<Rightarrow> Entry option \<times> error option" where
  "query_reply d cd er =
     (if Header er = ProtoNo then (None, Some (errors_New ''Peer returned no''))
      else
        (case Read_Entry cd (Content er) of
           Inl err \<Rightarrow> (None, Some err)
         | Inr entry \<Rightarrow>
             (let err = Verify d (Some entry) in
              if err \<noteq> None then (None, err) else (Some entry, None))))"

definition Client_Query ::
  "deps \<Rightarrow> codec \<Rightarrow> int \<Rightarrow> 's \<Rightarrow> ('s \<Rightarrow> ('s, Message) decoding) \<Rightarrow> 's Client \<Rightarrow> Address \<Rightarrow>
   (Entry option \<times> error option) \<times> 's Client" where
  "Client_Query d cd mms nd Decode c address =
     (case Write_Address cd address of
        Inl err \<Rightarrow> ((None, Some err), c)
      | Inr content \<Rightarrow>
          (let msg = \<lparr> Header = ProtoDhtQuery, Content = content, Stream = None, From = None \<rparr>;
               (err, c') = WriteMessage (Some c) msg;
               c = the c'
           in if err \<noteq> None then ((None, err), c)
              else
                (let ((er, err), c) = ReadMessage mms nd Decode c in
                 if err \<noteq> None then ((None, err), c)
                 else (query_reply d cd (the er), c))))"

section \<open>Package zif: the handlers of the local peer\<close>

text \<open>
  The local peer with the parts that \<^verbatim>\<open>HandleQuery\<close> uses: its address, its entry and
  its DHT. Modelled from the spec: the type \<^verbatim>\<open>dht.DHT\<close> that wraps the NetDB is missing
  from the sources; the spec gives \<open>query(address) \<rightarrow> entry?\<close>, which is \<^verbatim>\<open>NetDB.Query\<close>
  without the row id.
\<close>

record LocalPeer =
  lp_Address :: Address
  lp_Entry :: Entry
  DHT :: NetDB

definition DHT_Query ::
  "deps \<Rightarrow> NetDB \<Rightarrow> Address \<Rightarrow> error + ((Entry option \<times> error option) \<times> NetDB)" where
  "DHT_Query d ndb a =
     (case NetDB_Query d ndb a of
        Inl pnc \<Rightarrow> Inl pnc
      | Inr ((e, i, err), ndb') \<Rightarrow> Inr ((e, err), ndb'))"

text \<open>
  \<^verbatim>\<open>HandleQuery\<close>, on the message and the client \<^verbatim>\<open>msg.Client\<close>. The results are
  the error returned, the local peer and the client. In the second branch the source
  declares a new variable \<^verbatim>\<open>err\<close>, so the error of the last \<^verbatim>\<open>WriteMessage\<close> is
  not the one returned: that branch ends with the nil error of the outer variable.
\<close>

definition HandleQuery ::
  "deps \<Rightarrow> codec \<Rightarrow> LocalPeer \<Rightarrow> Message \<Rightarrow> 's Client option \<Rightarrow>
   error + (error option \<times> LocalPeer \<times> 's Client option)" where
  "HandleQuery d cd lp msg cl =
     (case Read_Address cd (Content msg) of
        Inl err \<Rightarrow> Inr (Some err, lp, cl)
      | Inr address \<Rightarrow>
          if Equals address (lp_Address lp) then
            (case Write_Entry cd (Some (lp_Entry lp)) of
               Inl err \<Rightarrow> Inr (Some err, lp, cl)
             | Inr content \<Rightarrow>
                 (let msg = \<lparr> Header = ProtoDhtQuery, Content = content, Stream = None,
                               From = None \<rparr>;
                      (err, cl) = WriteMessage cl msg
                  in Inr (err, lp, cl)))
          else
            (case DHT_Query d (DHT lp) address of
               Inl pnc \<Rightarrow> Inl pnc
             | Inr ((kv, err), ndb) \<Rightarrow>
                 (let lp = lp\<lparr>DHT := ndb\<rparr> in
                  if err \<noteq> None then Inr (err, lp, cl)
                  else
                    (let cl = (if kv = None then
                                 snd (WriteMessage cl
                                        \<lparr> Header = ProtoNo, Content = [], Stream = None,
                                          From = None \<rparr>)
                               else cl)
                     in case Write_Entry cd kv of
                          Inl err \<Rightarrow> Inr (Some err, lp, cl)
                        | Inr content \<Rightarrow>
                            (let msg = \<lparr> Header = ProtoDhtQuery, Content = content,
                                          Stream = None, From = None \<rparr>;
                                 (err, cl) = WriteMessage cl msg
                             in Inr (None, lp, cl))))))"

section \<open>Package zif: the peer manager\<close>

subsection \<open>SetPeer\<close>

text \<open>
  A peer with the parts that \<^verbatim>\<open>SetPeer\<close> uses: its address, the cached entry
  (\<open>None\<close> for nil), whether the four callbacks have been set, and \<open>net_entry\<close>, the
  outcome of the ping and the query of the peer's own address that \<^verbatim>\<open>GetEntry\<close>
  makes on the network.
\<close>

record Peer =
  p_address :: Address
  p_entry :: "Entry option"
  net_entry :: "error + Entry"
  hooks_bound :: bool

definition GetEntry :: "Peer \<Rightarrow> (Entry option \<times> error option) \<times> Peer" where
  "GetEntry p =
     (case net_entry p of
        Inl err \<Rightarrow> ((None, Some err), p)
      | Inr entry \<Rightarrow>
          if \<not> Equals (Address entry) (p_address p) then
            ((None, Some (errors_New ''Failed to fetch entry'')), p)
          else ((Some entry, None), p\<lparr>p_entry := Some entry\<rparr>))"

definition Peer_Entry :: "Peer \<Rightarrow> (Entry option \<times> error option) \<times> Peer" where
  "Peer_Entry p = (if p_entry p \<noteq> None then ((p_entry p, None), p) else GetEntry p)"

text \<open>
  A concurrent map of the library is an association list with one pair for each key;
  its order is the order in which \<^verbatim>\<open>IterBuffered\<close> yields the pairs, which the library
  leaves open.
\<close>

fun cmap_Set :: "('k \<times> 'v) list \<Rightarrow> 'k \<Rightarrow> 'v \<Rightarrow> ('k \<times> 'v) list" where
  "cmap_Set [] k v = [(k, v)]"
| "cmap_Set ((k', v') # m) k v = (if k' = k then (k, v) # m else (k', v') # cmap_Set m k v)"

definition cmap_Get :: "('k \<times> 'v) list \<Rightarrow> 'k \<Rightarrow> 'v option" where
  "cmap_Get m k = map_of m k"

definition cmap_Has :: "('k \<times> 'v) list \<Rightarrow> 'k \<Rightarrow> bool" where
  "cmap_Has m k \<longleftrightarrow> map_of m k \<noteq> None"

definition cmap_Remove :: "('k \<times> 'v) list \<Rightarrow> 'k \<Rightarrow> ('k \<times> 'v) list" where
  "cmap_Remove m k = filter (\<lambda>kv. fst kv \<noteq> k) m"

definition cmap_Count :: "('k \<times> 'v) list \<Rightarrow> nat" where
  "cmap_Count m = length m"

text \<open>
  The state of the peer manager. \<open>seedManagers\<close> counts the values sent on the channel
  \<^verbatim>\<open>Close\<close> of each seed manager, \<open>terminated\<close> lists the peers on which
  \<^verbatim>\<open>Terminate\<close> was called.
\<close>

record PeerManager =
  peers :: "(string \<times> Peer) list"
  peerSeen :: "(string \<times> int) list"
  publicToZif :: "(string \<times> Address) list"
  seedManagers :: "(string \<times> nat) list"
  terminated :: "Address list"

text \<open>The key \<^verbatim>\<open>string(addr.Raw)\<close> of the maps.\<close>

definition key_of :: "Address \<Rightarrow> string" where
  "key_of a = string_of_bytes (Raw a)"

definition HandleCloseConnection :: "PeerManager \<Rightarrow> Address \<Rightarrow> PeerManager" where
  "HandleCloseConnection pm a =
     (let pm = pm\<lparr>peers := cmap_Remove (peers pm) (key_of a)\<rparr>;
          pm = pm\<lparr>peerSeen := cmap_Remove (peerSeen pm) (key_of a)\<rparr>
      in case cmap_Get (seedManagers pm) (key_of a) of
           Some n \<Rightarrow> pm\<lparr>seedManagers := cmap_Set (seedManagers pm) (key_of a) (Suc n)\<rparr>
         | None \<Rightarrow> pm)"

text \<open>
  The scan for the least recently seen peer, as the source has it: \<open>oldestValue\<close> is
  never assigned in the loop.
\<close>

fun find_oldest :: "(string \<times> int) list \<Rightarrow> int \<Rightarrow> string \<Rightarrow> string" where
  "find_oldest [] oldestValue oldestKey = oldestKey"
| "find_oldest ((k, time) # rest) oldestValue oldestKey =
     (if time < oldestValue then find_oldest rest oldestValue k
      else find_oldest rest oldestValue oldestKey)"

text \<open>
  The loop \<^verbatim>\<open>for pm.peers.Count() > maxPeers\<close>. It removes the key of the address of
  the peer it found, which need not be the key it found the peer under, so it is a
  partial function: \<open>None\<close> is a loop that does not end. \<open>now n\<close> is the \<open>n\<close>-th
  reading of the clock.
\<close>

partial_function (option) evict_loop ::
  "int \<Rightarrow> (nat \<Rightarrow> int) \<Rightarrow> nat \<Rightarrow> PeerManager \<Rightarrow> PeerManager option" where
  "evict_loop maxPeers now n pm =
     (if int (cmap_Count (peers pm)) > maxPeers then
        (let oldestKey = find_oldest (peerSeen pm) (now n) ''''
         in case cmap_Get (peers pm) oldestKey of
              None \<Rightarrow> Some pm
            | Some peer \<Rightarrow>
                evict_loop maxPeers now (Suc n)
                  (HandleCloseConnection (pm\<lparr>terminated := terminated pm @ [p_address peer]\<rparr>)
                     (p_address peer)))
      else Some pm)"

declare evict_loop.simps [code]

text \<open>
  \<^verbatim>\<open>SetPeer\<close>, with \<open>maxPeers\<close> the configured \<^verbatim>\<open>net.maxPeers\<close>. The two
  goroutines that it starts at the end are outside the model.
\<close>

definition SetPeer :: "int \<Rightarrow> (nat \<Rightarrow> int) \<Rightarrow> PeerManager \<Rightarrow> Peer \<Rightarrow> PeerManager option" where
  "SetPeer maxPeers now pm p =
     (if cmap_Has (peers pm) (key_of (p_address p)) then Some pm
      else
        (let ((e, err), p) = Peer_Entry p in
         if err \<noteq> None then Some pm
         else
           (let pm = pm\<lparr>publicToZif := cmap_Set (publicToZif pm) (PublicAddress (the e)) (p_address p)\<rparr>;
                p = p\<lparr>hooks_bound := True\<rparr>;
                pm = pm\<lparr>peers := cmap_Set (peers pm) (key_of (p_address p)) p\<rparr>;
                pm = pm\<lparr>peerSeen := cmap_Set (peerSeen pm) (key_of (p_address p)) (now 0)\<rparr>
            in evict_loop maxPeers now 1 pm)))"

subsection \<open>Resolve\<close>

text \<open>
  \<^verbatim>\<open>Peer.Query\<close> returns the pointer of \<^verbatim>\<open>Client.Query\<close> as a value of the
  interface type \<^verbatim>\<open>common.Verifier\<close>. An interface value that holds a pointer is not
  the nil interface, also when the pointer is nil: \<open>nil_Verifier\<close> is the nil
  interface, \<open>Entry_Verifier p\<close> an interface value holding the pointer \<open>p\<close>.

  A remote peer is what the network makes of it: the outcome of a ping and of opening a
  stream, the outcome of writing a query for an address and reading one message (an error
  or the message), and the result of \<^verbatim>\<open>Client.FindClosest\<close> on a stream.
\<close>

datatype Verifier = nil_Verifier | Entry_Verifier "Entry option"

record remote_peer =
  rp_Ping :: "error option"
  rp_OpenStream :: "error option"
  rp_answer :: "Address \<Rightarrow> error + Message"
  rp_FindClosest :: "Address \<Rightarrow> Entry option list \<times> error option"

definition Peer_Query :: "deps \<Rightarrow> codec \<Rightarrow> remote_peer \<Rightarrow> Address \<Rightarrow> Verifier \<times> error option" where
  "Peer_Query d cd p address =
     (if rp_Ping p \<noteq> None then (nil_Verifier, rp_Ping p)
      else if rp_OpenStream p \<noteq> None then (nil_Verifier, rp_OpenStream p)
      else
        (let (entry, err) =
               (case rp_answer p address of
                  Inl err \<Rightarrow> (None, Some err)
                | Inr er \<Rightarrow> query_reply d cd er)
         in (Entry_Verifier entry, err)))"

definition Peer_FindClosest :: "remote_peer \<Rightarrow> Address \<Rightarrow> Entry option list \<times> error option" where
  "Peer_FindClosest p address =
     (if rp_Ping p \<noteq> None then ([], rp_Ping p)
      else if rp_OpenStream p \<noteq> None then ([], rp_OpenStream p)
      else rp_FindClosest p address)"

text \<open>
  \<^verbatim>\<open>resolveStep\<close> and its loop over the entries that the peer returned. \<open>depth\<close>
  is the counter behind the pointer \<^verbatim>\<open>depth *int\<close>, which all calls share: a call
  returns the value it leaves in it. \<open>dial\<close> is \<^verbatim>\<open>GetPeer\<close> followed by
  \<^verbatim>\<open>ConnectPeerDirect\<close>: the peer reached for an entry, if any; what a new
  connection does to the peer map and to the store is left out. A nil entry is
  dereferenced by the logging call.
\<close>

function (sequential) resolveStep ::
    "deps \<Rightarrow> codec \<Rightarrow> (Entry \<Rightarrow> remote_peer option) \<Rightarrow> Entry option \<Rightarrow> Address \<Rightarrow> nat \<Rightarrow>
     error + ((Entry option \<times> error option) \<times> nat)"
  and resolve_closest ::
    "deps \<Rightarrow> codec \<Rightarrow> (Entry \<Rightarrow> remote_peer option) \<Rightarrow> Entry option list \<Rightarrow> Address \<Rightarrow> nat \<Rightarrow>
     error + ((Entry option \<times> error option) \<times> nat)" where
  "resolveStep d cd dial e address depth =
     (if depth = 0 then Inr ((None, Some RecursionLimit), depth)
      else
        (let depth = depth - 1 in
         case e of
           None \<Rightarrow> Inl (runtime_panic ''nil pointer dereference'')
         | Some e \<Rightarrow>
             (case dial e of
                None \<Rightarrow> Inr ((None, Some PeerUnreachable), depth)
              | Some peer \<Rightarrow>
                  (let (kv, err) = Peer_Query d cd peer address in
                   if err \<noteq> None then Inr ((None, err), depth)
                   else
                     (case kv of
                        Entry_Verifier entry \<Rightarrow> Inr ((entry, None), depth)
                      | nil_Verifier \<Rightarrow>
                          (let (closest, err) = Peer_FindClosest peer address in
                           if err \<noteq> None then Inr ((None, err), depth)
                           else resolve_closest d cd dial closest address depth))))))"
| "resolve_closest d cd dial [] address depth =
     Inr ((None, Some (errors_New ''No entries could be found'')), depth)"
| "resolve_closest d cd dial (i # rest) address depth =
     (case resolveStep d cd dial i address depth of
        Inl pnc \<Rightarrow> Inl pnc
      | Inr ((result, err), depth) \<Rightarrow>
          if err \<noteq> None then Inr ((None, err), depth)
          else if result \<noteq> None then Inr ((result, None), depth)
          else resolve_closest d cd dial rest address depth)"
  by pat_completeness auto


text \<open>
  Termination: a call leaves the counter no larger than it found it, so the depth and
  then the number of entries still to visit decrease.
\<close>

termination
proof -
  have le:
    "resolveStep_resolve_closest_dom (Inl (d, cd, dial, e, address, depth)) \<Longrightarrow>
       resolveStep d cd dial e address depth = Inr (r, depth') \<Longrightarrow> depth' \<le> depth"
    "resolveStep_resolve_closest_dom (Inr (d, cd, dial, es, address, depth)) \<Longrightarrow>
       resolve_closest d cd dial es address depth = Inr (r, depth') \<Longrightarrow> depth' \<le> depth"
    for d cd dial e es address depth r depth'
  proof (induct d cd dial e address depth and d cd dial es address depth
         arbitrary: r depth' and r depth' rule: resolveStep_resolve_closest.pinduct)
    case (1 d cd dial e address depth)
    from "1.prems" show ?case
      apply (subst (asm) resolveStep.psimps [OF "1.hyps"(1)])
      apply (auto simp: Let_def split: if_splits option.splits prod.splits Verifier.splits)
      apply (drule "1.hyps"(2) [rotated -1])
      apply auto
      done
  next
    case (2 d cd dial address depth)
    from "2.prems" show ?case
      by (simp add: resolve_closest.psimps(1) [OF "2.hyps"])
  next
    case (3 d cd dial i rest address depth)
    from "3.prems" show ?case
      apply (subst (asm) resolve_closest.psimps(2) [OF "3.hyps"(1)])
      apply (auto split: sum.splits if_splits prod.splits)
      apply (blast dest: "3.hyps"(2))
      apply (blast dest: "3.hyps"(2))
      apply (frule "3.hyps"(2))
      apply (drule "3.hyps"(3) [rotated -1])
      apply auto
      done
  qed
  show ?thesis
  proof (relation "(\<lambda>x. case x of Inl (d, cd, dial, e, a, depth) \<Rightarrow> depth
                              | Inr (d, cd, dial, es, a, depth) \<Rightarrow> depth) <*mlex*>
                   measure (\<lambda>x. case x of Inl z \<Rightarrow> 0
                                     | Inr (d, cd, dial, es, a, depth) \<Rightarrow> Suc (length es))",
         goal_cases)
    case 1
    show ?case by (simp add: wf_mlex)
  next
    case 2
    then show ?case by (simp add: mlex_prod_def)
  next
    case 3
    then show ?case by (simp add: mlex_prod_def)
  next
    case (4 d cd dial i rest address depth x a b c da)
    then show ?case
      using le(1) [of d cd dial i address depth]
      by (auto simp: mlex_prod_def)
  qed
qed

declare resolveStep.simps [simp del]

text \<open>
  The loop of \<^verbatim>\<open>Resolve\<close> over the closest entries of the local store, and
  \<^verbatim>\<open>Resolve\<close>. Modelled from the spec: the wrapper \<^verbatim>\<open>dht.DHT\<close> is missing from the
  sources; its \<^verbatim>\<open>FindClosest\<close> and \<^verbatim>\<open>Insert\<close> are those of the NetDB.
\<close>

fun Resolve_loop ::
  "deps \<Rightarrow> codec \<Rightarrow> (Entry \<Rightarrow> remote_peer option) \<Rightarrow> Entry option list \<Rightarrow> Address \<Rightarrow> nat \<Rightarrow>
   LocalPeer \<Rightarrow> error + ((Entry option \<times> error option) \<times> LocalPeer)" where
  "Resolve_loop d cd dial [] address depth lp =
     Inr ((None, Some (errors_New ''Address could not be resolved'')), lp)"
| "Resolve_loop d cd dial (i # closest) address depth lp =
     (case resolveStep d cd dial i address depth of
        Inl pnc \<Rightarrow> Inl pnc
      | Inr ((entry, err), depth) \<Rightarrow>
          if err \<noteq> None then
            (if err = Some RecursionLimit then Inr ((None, err), lp)
             else Resolve_loop d cd dial closest address depth lp)
          else if entry = None then Resolve_loop d cd dial closest address depth lp
          else if Equals (Address (the entry)) address then
            (case Insert d (DHT lp) (the entry) of
               Inl pnc \<Rightarrow> Inl pnc
             | Inr (r, ndb) \<Rightarrow> Inr ((entry, None), lp\<lparr>DHT := ndb\<rparr>))
          else Resolve_loop d cd dial closest address depth lp)"

definition Resolve ::
  "deps \<Rightarrow> codec \<Rightarrow> (Entry \<Rightarrow> remote_peer option) \<Rightarrow> LocalPeer \<Rightarrow> Address \<Rightarrow>
   error + ((Entry option \<times> error option) \<times> LocalPeer)" where
  "Resolve d cd dial lp address =
     (if Equals address (lp_Address lp) then Inr ((Some (lp_Entry lp), None), lp)
      else
        (case DHT_Query d (DHT lp) address of
           Inl pnc \<Rightarrow> Inl pnc
         | Inr ((kv, err), ndb) \<Rightarrow>
             (let lp = lp\<lparr>DHT := ndb\<rparr>;
                  err = (if err = Some sql_ErrNoRows then None else err)
              in if err \<noteq> None then Inr ((None, err), lp)
                 else if kv \<noteq> None then Inr ((kv, None), lp)
                 else
                   (case FindClosest d (DHT lp) address of
                      Inl pnc \<Rightarrow> Inl pnc
                    | Inr (closest, ndb) \<Rightarrow>
                        Resolve_loop d cd dial closest address 6 (lp\<lparr>DHT := ndb\<rparr>)))))"

section \<open>Reference definitions and example values\<close>


text \<open>Values for concrete runs: an empty store, the all-zero address of the node.\<close>

definition empty_DB :: DB where
  "empty_DB = \<lparr> entry_tbl = [], seed_tbl = [], fts_tbl = [], failing = None \<rparr>"

definition zero_address :: Address where
  "zero_address = \<lparr> Raw = replicate 20 0 \<rparr>"

definition address_of_byte :: "byte \<Rightarrow> Address" where
  "address_of_byte b = \<lparr> Raw = b # replicate 19 0 \<rparr>"

text \<open>A node whose address differs from the address of the example entry in the first bit.\<close>

definition example_NetDB :: NetDB where
  "example_NetDB = NewNetDB (address_of_byte 128) empty_DB"

text \<open>The rows of the entry table with a given address string.\<close>

definition rows_of :: "NetDB \<Rightarrow> string \<Rightarrow> entry_row list" where
  "rows_of ndb s = filter (\<lambda>r. r_address r = s) (entry_tbl (conn ndb))"

text \<open>
  A store with two entries, for a concrete run of \<^verbatim>\<open>FindClosest\<close>: a second entry
  whose address differs from the first in the last bit of the first byte, the rows that
  \<^verbatim>\<open>Insert\<close> writes for the two, and the states of the example node whose first
  bucket is the slice \<open>sl\<close> on the arrays \<open>arrs\<close> allocated after those of
  \<^verbatim>\<open>NewNetDB\<close>.
\<close>

definition example_entry2 :: Entry where
  "example_entry2 = example_entry\<lparr>Address := address_of_byte 1\<rparr>"

definition address_string :: "Address \<Rightarrow> string" where
  "address_string a = fst (Address_String example_deps a)"

definition row_of :: "int \<Rightarrow> Entry \<Rightarrow> entry_row" where
  "row_of i e =
     \<lparr> r_id = i, r_address = address_string (Address e), r_name = Name e, r_desc = Desc e,
       r_publicAddress = PublicAddress e, r_port = Port e, r_publicKey = PublicKey e,
       r_signature = Signature e, r_collectionHash = CollectionHash e,
       r_postCount = PostCount e, r_seedCount = length (Seeds e),
       r_seedingCount = length (Seeding e), r_updated = Updated e, r_seen = Seen e \<rparr>"

definition one_entry_DB :: DB where
  "one_entry_DB =
     \<lparr> entry_tbl = [row_of 1 example_entry], seed_tbl = [],
       fts_tbl = [(1, ''n'', ''d'')], failing = None \<rparr>"

definition two_entry_DB :: DB where
  "two_entry_DB =
     \<lparr> entry_tbl = [row_of 1 example_entry, row_of 2 example_entry2], seed_tbl = [],
       fts_tbl = [(1, ''n'', ''d''), (2, ''n'', ''d'')], failing = None \<rparr>"

definition example_state :: "Address list list \<Rightarrow> slice \<Rightarrow> DB \<Rightarrow> NetDB" where
  "example_state arrs sl db =
     \<lparr> arrays = replicate 160 [] @ arrs, table = sl # map (\<lambda>n. (n, 0)) [1..<160],
       addr = address_of_byte 128, conn = db \<rparr>"

definition one_entry_NetDB :: NetDB where
  "one_entry_NetDB = example_state [ [zero_address] ] (160, Suc 0) one_entry_DB"

definition two_entry_NetDB :: NetDB where
  "two_entry_NetDB =
     example_state [ [zero_address], [address_of_byte 1, zero_address] ] (161, 2) two_entry_DB"

text \<open>
  Values for concrete runs of the protocol. The codec writes a nil entry pointer as the
  single byte C0 (the nil of msgpack) and is otherwise a stand-in that carries raw address
  bytes. The example decoder asks for four bytes and then returns a message with the
  header \<open>no\<close>. The local peer is the example node with its empty store.
\<close>

definition example_codec :: codec where
  "example_codec =
     \<lparr> Write_Entry = (\<lambda>p. Inr (case p of None \<Rightarrow> [192] | Some e \<Rightarrow> Raw (Address e))),
       Write_Address = (\<lambda>a. Inr (Raw a)),
       Read_Entry = (\<lambda>bs. Inr (example_entry\<lparr>Address := \<lparr> Raw = bs \<rparr>\<rparr>)),
       Read_Address = (\<lambda>bs. Inr \<lparr> Raw = bs \<rparr>) \<rparr>"

definition example_Decode :: "unit \<Rightarrow> (unit, Message) decoding" where
  "example_Decode s =
     Read 4 (\<lambda>got. Decoded (Inr \<lparr> Header = ProtoNo, Content = [], Stream = None, From = None \<rparr>) s)"

definition example_Client :: "unit Client" where
  "example_Client = NewClient 3 () 7 [Data [1, 2, 3, 4, 5] ]"

definition example_LocalPeer :: LocalPeer where
  "example_LocalPeer =
     \<lparr> lp_Address = address_of_byte 128,
       lp_Entry = example_entry\<lparr>Address := address_of_byte 128\<rparr>,
       DHT = example_NetDB \<rparr>"

definition example_query :: Message where
  "example_query =
     \<lparr> Header = ProtoDhtQuery, Content = Raw zero_address, Stream = None, From = None \<rparr>"

text \<open>The state in which \<^verbatim>\<open>FindClosest\<close> leaves the node with two entries.\<close>

definition walked_NetDB :: NetDB where
  "walked_NetDB =
     example_state
       [ [zero_address], [zero_address, zero_address], [address_of_byte 1, zero_address],
        [address_of_byte 1, address_of_byte 1], [zero_address, address_of_byte 1],
        [address_of_byte 1, zero_address] ]
       (165, 2) two_entry_DB"

text \<open>
  A peer manager with two peers, last seen at the times 0 and 1, and the peers
  themselves: each has its entry cached.
\<close>

definition example_Peer :: "byte \<Rightarrow> Peer" where
  "example_Peer b =
     \<lparr> p_address = address_of_byte b,
       p_entry = Some (example_entry\<lparr>Address := address_of_byte b\<rparr>),
       net_entry = Inl PeerUnreachable, hooks_bound = False \<rparr>"

definition example_PeerManager :: PeerManager where
  "example_PeerManager =
     \<lparr> peers = [(key_of (address_of_byte 1), (example_Peer 1)\<lparr>hooks_bound := True\<rparr>),
                (key_of (address_of_byte 2), (example_Peer 2)\<lparr>hooks_bound := True\<rparr>)],
       peerSeen = [(key_of (address_of_byte 1), 0), (key_of (address_of_byte 2), 1)],
       publicToZif = [(''a'', address_of_byte 2)], seedManagers = [], terminated = [] \<rparr>"

text \<open>
  A network for a run of \<^verbatim>\<open>Resolve\<close> from the node with two entries, as in the
  fourth scenario of the spec: the peers behind the two entries answer a query with
  \<open>no\<close> and return the entry of a further peer from \<^verbatim>\<open>FindClosest\<close>; that peer
  answers a query with the entry of the address asked for.
\<close>

definition no_message :: Message where
  "no_message = \<lparr> Header = ProtoNo, Content = [], Stream = None, From = None \<rparr>"

definition target_entry :: Entry where
  "target_entry = example_entry\<lparr>Address := address_of_byte 2\<rparr>"

definition hop_entry :: Entry where
  "hop_entry = example_entry\<lparr>Address := address_of_byte 3\<rparr>"

definition peer_A :: remote_peer where
  "peer_A = \<lparr> rp_Ping = None, rp_OpenStream = None, rp_answer = (\<lambda>a. Inr no_message),
              rp_FindClosest = (\<lambda>a. ([Some hop_entry], None)) \<rparr>"

definition peer_B :: remote_peer where
  "peer_B = \<lparr> rp_Ping = None, rp_OpenStream = None,
              rp_answer = (\<lambda>a. Inr \<lparr> Header = ProtoDhtQuery, Content = Raw a, Stream = None,
                                        From = None \<rparr>),
              rp_FindClosest = (\<lambda>a. ([], None)) \<rparr>"

definition example_dial :: "Entry \<Rightarrow> remote_peer option" where
  "example_dial e = (if Address e = address_of_byte 3 then Some peer_B else Some peer_A)"

definition two_entry_LocalPeer :: LocalPeer where
  "two_entry_LocalPeer =
     \<lparr> lp_Address = address_of_byte 128,
       lp_Entry = example_entry\<lparr>Address := address_of_byte 128\<rparr>,
       DHT = two_entry_NetDB \<rparr>"

section \<open>Properties of entries\<close>

lemmas entry_limits =
  MaxEntryNameLength_def MaxEntryDescLength_def MaxEntryPublicAddressLength_def
  MaxEntrySeeds_def ed25519_PublicKeySize_def ed25519_SignatureSize_def

lemma Verify_None_iff:
  "Verify d (Some e) = None \<longleftrightarrow>
     earlier_checks d e \<and> 0 < length (PublicAddress e) \<and> length (PublicAddress e) < 253 \<and>
     sint (Port e) \<le> 65535"
  by (auto simp: Verify_def earlier_checks_def entry_limits Let_def word_sless_alt)

lemma Verify_public_address_too_large:
  assumes "earlier_checks d e" and "253 \<le> length (PublicAddress e)"
  shows "Verify d (Some e) = Some (errors_New ''Public address is too large (253 char max)'')"
  using assms by (auto simp: Verify_def earlier_checks_def entry_limits Let_def)

lemma earlier_checks_example: "earlier_checks example_deps example_entry"
  by (simp add: earlier_checks_def example_deps_def example_entry_def)

lemma earlier_checks_PublicAddress [simp]:
  "earlier_checks example_deps (example_entry\<lparr>PublicAddress := a\<rparr>)"
  by (simp add: earlier_checks_def example_deps_def example_entry_def)

lemma earlier_checks_Port [simp]:
  "earlier_checks example_deps (example_entry\<lparr>Port := p\<rparr>)"
  by (simp add: earlier_checks_def example_deps_def example_entry_def)

text \<open>
  C4. \<^verbatim>\<open>Verify\<close> compares the length of the public address with \<open>>=\<close> against
  253: an entry that passes every other check and whose public address has exactly 253
  characters is rejected with the error whose text says that 253 characters are the
  maximum, while the same entry with 252 characters is accepted.
\<close>

theorem Verify_public_address_253_rejected:
  "Verify example_deps (Some (example_entry\<lparr>PublicAddress := replicate 253 CHR ''a''\<rparr>)) =
     Some (errors_New ''Public address is too large (253 char max)'') \<and>
   Verify example_deps (Some (example_entry\<lparr>PublicAddress := replicate 252 CHR ''a''\<rparr>)) = None"
proof
  show "Verify example_deps (Some (example_entry\<lparr>PublicAddress := replicate 253 CHR ''a''\<rparr>)) =
     Some (errors_New ''Public address is too large (253 char max)'')"
    by (rule Verify_public_address_too_large) simp_all
  show "Verify example_deps (Some (example_entry\<lparr>PublicAddress := replicate 252 CHR ''a''\<rparr>)) = None"
    by (simp add: Verify_None_iff) (simp add: example_entry_def)
qed

lemma foldl_append_concat: "foldl (\<lambda>s i. s @ f i) a xs = a @ concat (map f xs)"
  by (induction xs arbitrary: a) auto

lemma Entry_Bytes_order:
  "Address_String d (Address e) = (a, None) \<Longrightarrow>
   Entry_Bytes d e =
     (a @ Name e @ Desc e @ PublicAddress e @ string_of_bytes (PublicKey e) @
      string_of_rune (Port e) @ Itoa (PostCount e) @ Itoa (Updated e) @
      string_of_bytes (CollectionHash e) @ concat (map string_of_bytes (Seeding e)), None)"
  by (simp add: Entry_Bytes_def Entry_String_def Let_def foldl_append_concat)

lemma Entry_Bytes_Seeds: "Entry_Bytes d (e\<lparr>Seeds := s\<rparr>) = Entry_Bytes d e"
  by (simp add: Entry_Bytes_def Entry_String_def Let_def split: prod.splits)

text \<open>
  C9, as the claim states it: two entries that differ only in \<open>Seeds\<close> are accepted
  or rejected together. It fails: \<^verbatim>\<open>Verify\<close> bounds the number of seeds, so the
  accepted example entry is rejected once it carries 100001 seeds, although the canonical
  bytes of the two are equal.
\<close>

theorem Verify_depends_on_Seeds_counterexample:
  "Entry_Bytes example_deps (example_entry\<lparr>Seeds := replicate 100001 []\<rparr>) =
     Entry_Bytes example_deps example_entry \<and>
   Verify example_deps (Some example_entry) = None \<and>
   Verify example_deps (Some (example_entry\<lparr>Seeds := replicate 100001 []\<rparr>)) =
     Some (errors_New ''Entry has too many seeds'')"
  by (simp add: Entry_Bytes_Seeds Verify_None_iff earlier_checks_example)
     (simp add: Verify_def example_entry_def entry_limits)

text \<open>
  C9, amended. When \<^verbatim>\<open>Address.String\<close> succeeds, the canonical bytes are the address
  string, name, desc, public address, public key, port, post count, updated, collection
  hash and then the elements of \<open>Seeding\<close>, in this order. \<open>Seeds\<close> is no part of
  them: replacing the seeds of an entry leaves the canonical bytes equal, and
  \<^verbatim>\<open>Verify\<close> returns the same result for the two entries whenever both seed lists have
  at most 100000 elements.
\<close>

theorem Entry_Bytes_canonical_order_without_Seeds:
  "(Address_String d (Address e) = (a, None) \<longrightarrow>
      Entry_Bytes d e =
        (a @ Name e @ Desc e @ PublicAddress e @ string_of_bytes (PublicKey e) @
         string_of_rune (Port e) @ Itoa (PostCount e) @ Itoa (Updated e) @
         string_of_bytes (CollectionHash e) @ concat (map string_of_bytes (Seeding e)), None)) \<and>
   Entry_Bytes d (e\<lparr>Seeds := s\<rparr>) = Entry_Bytes d e \<and>
   (length (Seeds e) \<le> 100000 \<and> length s \<le> 100000 \<longrightarrow>
      Verify d (Some (e\<lparr>Seeds := s\<rparr>)) = Verify d (Some e))"
  by (simp add: Entry_Bytes_order Entry_Bytes_Seeds Verify_def entry_limits)

theorem Entry_Bytes_canonical_order_without_Seeds_witness:
  "Address_String example_deps (Address example_entry) = (replicate 20 (CHR 0x00), None) \<and>
   length (Seeds example_entry) \<le> 100000 \<and> length [ [1::byte], [2] ] \<le> 100000 \<and>
   fst (Entry_Bytes example_deps example_entry) =
     replicate 20 (CHR 0x00) @ ''n'' @ ''d'' @ ''a'' @ replicate 32 (CHR 0x00) @
     string_of_rune 5050 @ ''0'' @ ''0'' \<and>
   Entry_Bytes example_deps (example_entry\<lparr>Seeds := [ [1], [2] ]\<rparr>) =
     Entry_Bytes example_deps example_entry \<and>
   Verify example_deps (Some (example_entry\<lparr>Seeds := [ [1], [2] ]\<rparr>)) = None"
proof -
  have a: "Address_String example_deps (Address example_entry) = (replicate 20 (CHR 0x00), None)"
    by (simp add: example_deps_def example_entry_def string_of_bytes_def char_of_def)
  have z: "Itoa 0 = ''0''"
    by code_simp
  have v: "Verify example_deps (Some example_entry) = None"
    by (simp add: Verify_None_iff earlier_checks_example) (simp add: example_entry_def)
  from Entry_Bytes_canonical_order_without_Seeds
         [of example_deps example_entry "replicate 20 (CHR 0x00)" "[ [1], [2] ]"] a v
  show ?thesis
    by (simp add: z example_entry_def string_of_bytes_def char_of_def)
qed

text \<open>
  C10. \<^verbatim>\<open>Verify\<close> has no lower bound on the port: an entry that passes the other
  checks (those before the public address, and a public address of 1 to 252 characters)
  is accepted with every negative port, and among such entries exactly those with a port
  above 65535 are rejected.
\<close>

theorem Verify_accepts_negative_Port:
  assumes "earlier_checks d e"
    and "0 < length (PublicAddress e)" and "length (PublicAddress e) < 253"
  shows "(sint (Port e) < 0 \<longrightarrow> Verify d (Some e) = None) \<and>
         (Verify d (Some e) \<noteq> None \<longleftrightarrow> 65535 < sint (Port e))"
  using assms by (auto simp: Verify_None_iff)

theorem Verify_accepts_negative_Port_witness:
  "earlier_checks example_deps (example_entry\<lparr>Port := - 1\<rparr>) \<and>
   0 < length (PublicAddress (example_entry\<lparr>Port := - 1\<rparr>)) \<and>
   length (PublicAddress (example_entry\<lparr>Port := - 1\<rparr>)) < 253 \<and>
   sint (Port (example_entry\<lparr>Port := - 1\<rparr>)) < 0 \<and>
   Verify example_deps (Some (example_entry\<lparr>Port := - 1\<rparr>)) = None"
proof -
  have p: "0 < length (PublicAddress (example_entry\<lparr>Port := - 1\<rparr>))"
          "length (PublicAddress (example_entry\<lparr>Port := - 1\<rparr>)) < 253"
    by (simp_all add: example_entry_def)
  from Verify_accepts_negative_Port [OF earlier_checks_Port [of "- 1"] p] p
  show ?thesis by simp
qed


section \<open>Properties of the routing table\<close>

lemma Equals_iff [simp]: "Equals (a::Address) b \<longleftrightarrow> a = b"
  by (cases a, cases b) (simp add: Equals_def)















section \<open>Properties of the store\<close>

lemma insertIntoTable_frame:
  "insertIntoTable ndb a = Inr ndb' \<Longrightarrow>
   conn ndb' = conn ndb \<and> addr ndb' = addr ndb \<and> length (table ndb') = length (table ndb)"
  by (auto simp: insertIntoTable_def Let_def split: if_splits prod.splits option.splits)

lemma insertIntoTable_in_range:
  "LeadingZeroes (Xor a (addr ndb)) < length (table ndb) \<Longrightarrow> \<exists>ndb'. insertIntoTable ndb a = Inr ndb'"
  by (auto simp: insertIntoTable_def Let_def split: if_splits prod.splits option.splits)

lemma Update_ok:
  assumes "Verify d (Some e) = None" "Address_String d (Address e) = (s, None)"
    "failing (conn ndb) = None"
  shows "\<exists>ndb'. Update d ndb e = ((int (length (rows_of ndb s)), None), ndb') \<and>
     addr ndb' = addr ndb \<and> table ndb' = table ndb \<and> arrays ndb' = arrays ndb \<and>
     failing (conn ndb') = None \<and>
     map r_address (entry_tbl (conn ndb')) = map r_address (entry_tbl (conn ndb))"
  using assms
  by (simp add: Update_def sqlUpdateEntry_def rows_of_def comp_def cong: if_cong)

lemma address_filter: "(\<lambda>r. r_address r = s) = (\<lambda>a. a = s) \<circ> r_address" by auto

lemma length_rows: "length (rows_of ndb s) = length (filter (\<lambda>a. a = s) (map r_address (entry_tbl (conn ndb))))"
  unfolding rows_of_def address_filter filter_map by simp

lemma insertIntoDB_new:
  assumes "Address_String d (Address e) = (s, None)"
    "failing (conn ndb) = None" "rows_of ndb s = []"
  shows "\<exists>ndb'. insertIntoDB d ndb e = ((1, None), ndb') \<and>
     addr ndb' = addr ndb \<and> table ndb' = table ndb \<and> arrays ndb' = arrays ndb \<and>
     failing (conn ndb') = None \<and>
     map r_address (entry_tbl (conn ndb')) = map r_address (entry_tbl (conn ndb)) @ [s]"
  using assms
  by (auto simp: insertIntoDB_def sqlInsertEntry_def sqlInsertFtsEntry_def rows_of_def
      filter_empty_conv)

lemma InsertSeed_frame:
  "InsertSeed d ndb x y = (err, ndb') \<Longrightarrow>
    addr ndb' = addr ndb \<and> table ndb' = table ndb \<and> arrays ndb' = arrays ndb \<and>
    failing (conn ndb') = failing (conn ndb) \<and> entry_tbl (conn ndb') = entry_tbl (conn ndb)"
  by (auto simp: InsertSeed_def sqlInsertSeed_def Let_def
      split: prod.splits if_splits sum.splits option.splits)

lemma insert_seeding_frame:
  "insert_seeding d ndb e xs = (err, ndb') \<Longrightarrow>
    addr ndb' = addr ndb \<and> table ndb' = table ndb \<and> arrays ndb' = arrays ndb \<and>
    failing (conn ndb') = failing (conn ndb) \<and> entry_tbl (conn ndb') = entry_tbl (conn ndb)"
proof (induction xs arbitrary: ndb)
  case Nil
  then show ?case by simp
next
  case (Cons i xs)
  obtain er n1 where 1: "InsertSeed d ndb \<lparr>Raw = i\<rparr> (Address e) = (er, n1)"
    by (cases "InsertSeed d ndb \<lparr>Raw = i\<rparr> (Address e)")
  note fr = InsertSeed_frame [OF 1]
  show ?case
  proof (cases er)
    case None
    with Cons.prems 1 have "insert_seeding d n1 e xs = (err, ndb')" by simp
    from Cons.IH [OF this] fr show ?thesis by simp
  next
    case (Some x)
    with Cons.prems 1 fr show ?thesis by simp
  qed
qed

lemma insert_seeds_frame:
  "insert_seeds d ndb e xs = (err, ndb') \<Longrightarrow>
    addr ndb' = addr ndb \<and> table ndb' = table ndb \<and> arrays ndb' = arrays ndb \<and>
    failing (conn ndb') = failing (conn ndb) \<and> entry_tbl (conn ndb') = entry_tbl (conn ndb)"
proof (induction xs arbitrary: ndb)
  case Nil
  then show ?case by simp
next
  case (Cons i xs)
  obtain er n1 where 1: "InsertSeed d ndb (Address e) \<lparr>Raw = i\<rparr> = (er, n1)"
    by (cases "InsertSeed d ndb (Address e) \<lparr>Raw = i\<rparr>")
  note fr = InsertSeed_frame [OF 1]
  show ?case
  proof (cases er)
    case None
    with Cons.prems 1 have "insert_seeds d n1 e xs = (err, ndb')" by simp
    from Cons.IH [OF this] fr show ?thesis by simp
  next
    case (Some x)
    with Cons.prems 1 fr show ?thesis by simp
  qed
qed

lemma insertEntrySeeds_frame:
  "insertEntrySeeds d ndb e = (err, ndb') \<Longrightarrow>
    addr ndb' = addr ndb \<and> table ndb' = table ndb \<and> arrays ndb' = arrays ndb \<and>
    failing (conn ndb') = failing (conn ndb) \<and> entry_tbl (conn ndb') = entry_tbl (conn ndb)"
  unfolding insertEntrySeeds_def
  by (auto split: prod.splits if_splits dest!: insert_seeding_frame insert_seeds_frame)


lemma length_filter_distinct:
  "distinct xs \<Longrightarrow> length (filter (\<lambda>a. a = s) xs) = (if s \<in> set xs then 1 else 0)"
  by (induction xs) auto

lemma rows_of_count:
  "distinct (map r_address (entry_tbl (conn ndb))) \<Longrightarrow>
   length (rows_of ndb s) = (if s \<in> r_address ` set (entry_tbl (conn ndb)) then 1 else 0)"
proof -
  assume d: "distinct (map r_address (entry_tbl (conn ndb)))"
  have "length (rows_of ndb s) =
      length (filter (\<lambda>a. a = s) (map r_address (entry_tbl (conn ndb))))"
    by (rule length_rows)
  also have "\<dots> = (if s \<in> set (map r_address (entry_tbl (conn ndb))) then 1 else 0)"
    using d by (rule length_filter_distinct)
  finally show ?thesis by (simp only: set_map)
qed

lemma rows_of_cong:
  "map r_address (entry_tbl (conn n2)) = map r_address (entry_tbl (conn n1)) \<Longrightarrow>
   length (rows_of n2 s) = length (rows_of n1 s)"
  by (simp add: length_rows)

lemma Insert_step:
  assumes v: "Verify d (Some e) = None"
    and s: "Address_String d (Address e) = (s, None)"
    and f: "failing (conn ndb) = None"
    and ix: "LeadingZeroes (Xor (Address e) (addr ndb)) < length (table ndb)"
    and u: "distinct (map r_address (entry_tbl (conn ndb)))"
  shows "\<exists>err ndb'. Insert d ndb e = Inr ((1, err), ndb') \<and>
      (s \<in> r_address ` set (entry_tbl (conn ndb)) \<longrightarrow> err = None) \<and>
      failing (conn ndb') = None \<and> addr ndb' = addr ndb \<and>
      length (table ndb') = length (table ndb) \<and>
      distinct (map r_address (entry_tbl (conn ndb'))) \<and>
      s \<in> r_address ` set (entry_tbl (conn ndb'))"
proof -
  from insertIntoTable_in_range [OF ix] obtain nt where
    t: "insertIntoTable ndb (Address e) = Inr nt" by blast
  note tf = insertIntoTable_frame [OF t]
  from tf f have ft: "failing (conn nt) = None" by simp
  from Update_ok [OF v s ft] obtain nu where
    up: "Update d nt e = ((int (length (rows_of nt s)), None), nu)" and
    uf: "addr nu = addr nt" "table nu = table nt" "failing (conn nu) = None"
      "map r_address (entry_tbl (conn nu)) = map r_address (entry_tbl (conn nt))"
    by blast
  from tf u have ut: "distinct (map r_address (entry_tbl (conn nt)))" by simp
  have cnt: "length (rows_of nt s) = (if s \<in> r_address ` set (entry_tbl (conn ndb)) then 1 else 0)"
    using rows_of_count [OF ut] tf by simp
  show ?thesis
  proof (cases "s \<in> r_address ` set (entry_tbl (conn ndb))")
    case True
    with cnt have "Insert d ndb e = Inr ((1, None), nu)"
      using v t up by (simp add: Insert_def)
    moreover have "distinct (map r_address (entry_tbl (conn nu)))"
      using uf ut by simp
    moreover have "s \<in> r_address ` set (entry_tbl (conn nu))"
      using True uf(4) tf by (metis set_map)
    ultimately show ?thesis using True uf tf by simp
  next
    case False
    with cnt have z: "length (rows_of nt s) = 0" by simp
    have "length (rows_of nu s) = 0" using rows_of_cong [OF uf(4)] z by simp
    then have e0: "rows_of nu s = []" by simp
    from insertIntoDB_new [OF s uf(3) e0] obtain ni where
      i: "insertIntoDB d nu e = ((1, None), ni)" and
      nf: "addr ni = addr nu" "table ni = table nu" "failing (conn ni) = None"
        "map r_address (entry_tbl (conn ni)) = map r_address (entry_tbl (conn nu)) @ [s]"
      by blast
    obtain err nf' where sd: "insertEntrySeeds d ni e = (err, nf')"
      by (cases "insertEntrySeeds d ni e")
    note sf = insertEntrySeeds_frame [OF sd]
    have r: "Insert d ndb e = Inr ((1, err), nf')"
      using v t up z i sd by (simp add: Insert_def)
    have m: "map r_address (entry_tbl (conn nf')) = map r_address (entry_tbl (conn ndb)) @ [s]"
      using sf nf uf tf by simp
    have "distinct (map r_address (entry_tbl (conn nf')))"
      unfolding m using u False by simp
    moreover have "s \<in> r_address ` set (entry_tbl (conn nf'))"
      using m by (metis in_set_conv_decomp set_map)
    ultimately show ?thesis using r False sf nf uf tf by simp
  qed
qed

lemma Insert_twice_general:
  assumes v: "Verify d (Some e) = None"
    and s: "Address_String d (Address e) = (s, None)"
    and f: "failing (conn ndb) = None"
    and ix: "LeadingZeroes (Xor (Address e) (addr ndb)) < length (table ndb)"
    and u: "distinct (map r_address (entry_tbl (conn ndb)))"
  shows "case Insert d ndb e of
           Inl pnc \<Rightarrow> False
         | Inr ((n1, err1), ndb1) \<Rightarrow>
             n1 = 1 \<and>
             (case Insert d ndb1 e of
                Inl pnc \<Rightarrow> False
              | Inr ((n2, err2), ndb2) \<Rightarrow> n2 = 1 \<and> err2 = None)"
proof -
  from Insert_step [OF v s f ix u] obtain err1 ndb1 where
    1: "Insert d ndb e = Inr ((1, err1), ndb1)" and
    p: "failing (conn ndb1) = None" "addr ndb1 = addr ndb"
       "length (table ndb1) = length (table ndb)"
       "distinct (map r_address (entry_tbl (conn ndb1)))"
       "s \<in> r_address ` set (entry_tbl (conn ndb1))"
    by blast
  from ix p have ix1: "LeadingZeroes (Xor (Address e) (addr ndb1)) < length (table ndb1)"
    by simp
  from Insert_step [OF v s p(1) ix1 p(4)] p(5) obtain ndb2 where
    2: "Insert d ndb1 e = Inr ((1, None), ndb2)"
    by blast
  from 1 2 show ?thesis by simp
qed


lemma Verify_example: "Verify example_deps (Some example_entry) = None"
  by (simp add: Verify_None_iff earlier_checks_example) (simp add: example_entry_def)

lemma example_index: "LeadingZeroes (Xor (Address example_entry) (addr example_NetDB)) = 0"
  by code_simp

lemma example_index_in_range:
  "LeadingZeroes (Xor (Address example_entry) (addr example_NetDB)) < length (table example_NetDB)"
  unfolding example_index by (simp add: example_NetDB_def NewNetDB_def AddressBinarySize_def)

lemma example_Address_String:
  "Address_String example_deps (Address example_entry) =
     (string_of_bytes (Raw (Address example_entry)), None)"
  by (simp add: example_deps_def)

lemma example_store:
  "failing (conn example_NetDB) = None"
  "distinct (map r_address (entry_tbl (conn example_NetDB)))"
  by (simp_all add: example_NetDB_def NewNetDB_def empty_DB_def)

text \<open>
  C3, as the claim states it: the second of two successive calls of \<^verbatim>\<open>Insert\<close> with the
  same entry returns 0. It fails: on the empty store of the example node, both calls with
  the example entry return 1.
\<close>

theorem Insert_twice_second_returns_1_counterexample:
  "case Insert example_deps example_NetDB example_entry of
     Inl pnc \<Rightarrow> False
   | Inr ((n1, err1), ndb1) \<Rightarrow>
       n1 = 1 \<and>
       (case Insert example_deps ndb1 example_entry of
          Inl pnc \<Rightarrow> False
        | Inr ((n2, err2), ndb2) \<Rightarrow> n2 = 1 \<and> n2 \<noteq> 0 \<and> err2 = None)"
  using Insert_twice_general [OF Verify_example example_Address_String example_store(1)
          example_index_in_range example_store(2)]
  by (auto split: sum.splits prod.splits)

text \<open>
  C3, amended. For an entry that \<^verbatim>\<open>Verify\<close> accepts and whose address has a string
  form, on a store without I/O error whose rows have pairwise different addresses (the
  \<^verbatim>\<open>UNIQUE\<close> column of the schema), and with the bucket index of the entry inside the
  table: two successive calls of \<^verbatim>\<open>Insert\<close> do not panic and both return 1 affected
  row. The second call returns the row count of its \<^verbatim>\<open>UPDATE\<close>, with a nil error.
\<close>

theorem Insert_twice_both_return_1:
  assumes "Verify d (Some e) = None"
    and "Address_String d (Address e) = (s, None)"
    and "failing (conn ndb) = None"
    and "LeadingZeroes (Xor (Address e) (addr ndb)) < length (table ndb)"
    and "distinct (map r_address (entry_tbl (conn ndb)))"
  shows "case Insert d ndb e of
           Inl pnc \<Rightarrow> False
         | Inr ((n1, err1), ndb1) \<Rightarrow>
             n1 = 1 \<and>
             (case Insert d ndb1 e of
                Inl pnc \<Rightarrow> False
              | Inr ((n2, err2), ndb2) \<Rightarrow> n2 = 1 \<and> err2 = None)"
  using assms by (rule Insert_twice_general)

theorem Insert_twice_both_return_1_witness:
  "Verify example_deps (Some example_entry) = None \<and>
   Address_String example_deps (Address example_entry) =
     (string_of_bytes (Raw (Address example_entry)), None) \<and>
   failing (conn example_NetDB) = None \<and>
   LeadingZeroes (Xor (Address example_entry) (addr example_NetDB))
     < length (table example_NetDB) \<and>
   distinct (map r_address (entry_tbl (conn example_NetDB))) \<and>
   (case Insert example_deps example_NetDB example_entry of
      Inl pnc \<Rightarrow> False
    | Inr ((n1, err1), ndb1) \<Rightarrow>
        n1 = 1 \<and>
        (case Insert example_deps ndb1 example_entry of
           Inl pnc \<Rightarrow> False
         | Inr ((n2, err2), ndb2) \<Rightarrow> n2 = 1 \<and> err2 = None))"
  using Insert_twice_both_return_1 [OF Verify_example example_Address_String example_store(1)
          example_index_in_range example_store(2)]
    Verify_example example_Address_String example_store example_index_in_range
  by blast


section \<open>Properties of FindClosest\<close>

lemma range_query_length_limit:
  "range_query d (Some l) p ks ret ndb = Inr (ret', ndb') \<Longrightarrow> length ret \<le> l \<Longrightarrow>
   length ret' \<le> l"
proof (induction ks arbitrary: ret ndb)
  case Nil
  then show ?case by simp
next
  case (Cons k ks)
  show ?case
  proof (cases "l \<le> length ret")
    case True
    with Cons.prems show ?thesis by simp
  next
    case False
    with Cons.prems obtain kv i err n1 where
      q: "NetDB_Query d ndb (arrays ndb ! p ! k) = Inr ((kv, i, err), n1)"
      by (auto split: sum.splits)
    show ?thesis
    proof (cases err)
      case None
      with Cons.prems False q have "range_query d (Some l) p ks (ret @ [kv]) n1 = Inr (ret', ndb')"
        by simp
      moreover have "length (ret @ [kv]) \<le> l" using False by simp
      ultimately show ?thesis by (rule Cons.IH)
    next
      case (Some e)
      with Cons.prems False q have "range_query d (Some l) p ks ret n1 = Inr (ret', ndb')"
        by simp
      then show ?thesis using Cons.prems(2) by (rule Cons.IH)
    qed
  qed
qed

lemma range_query_length_all:
  "range_query d None p ks ret ndb = Inr (ret', ndb') \<Longrightarrow>
   length ret' \<le> length ret + length ks"
proof (induction ks arbitrary: ret ndb)
  case Nil
  then show ?case by simp
next
  case (Cons k ks)
  from Cons.prems obtain kv i err n1 where
    q: "NetDB_Query d ndb (arrays ndb ! p ! k) = Inr ((kv, i, err), n1)"
    by (auto split: sum.splits)
  show ?case
  proof (cases err)
    case None
    with Cons.prems q have "range_query d None p ks (ret @ [kv]) n1 = Inr (ret', ndb')"
      by simp
    from Cons.IH [OF this] show ?thesis by simp
  next
    case (Some e)
    with Cons.prems q have "range_query d None p ks ret n1 = Inr (ret', ndb')"
      by simp
    from Cons.IH [OF this] show ?thesis by simp
  qed
qed

lemma FindClosest_loop_length:
  "FindClosest_loop d a index i ret ndb = Inr (ret', ndb') \<Longrightarrow> length ret \<le> BucketSize \<Longrightarrow>
   length ret' \<le> BucketSize"
proof (induction "index + length (Raw a) * 8 + 1 - i" arbitrary: i ret ndb)
  case 0
  then have "\<not> (i \<le> index \<or> index + i \<le> length (Raw a) * 8)" by simp
  with "0.prems" show ?case
    by (subst (asm) FindClosest_loop.simps) simp
next
  case (Suc m)
  show ?case
  proof (cases "(i \<le> index \<or> index + i \<le> length (Raw a) * 8) \<and> length ret < BucketSize")
    case False
    with Suc.prems show ?thesis
      by (subst (asm) FindClosest_loop.simps) simp
  next
    case True
    have "\<exists>r2 n2. length r2 \<le> BucketSize \<and>
            FindClosest_loop d a index (Suc i) r2 n2 = Inr (ret', ndb')"
      using Suc.prems(1) True Suc.prems(2)
      apply (subst (asm) FindClosest_loop.simps)
      apply (simp add: Let_def split: sum.splits if_splits prod.splits)
      apply (meson range_query_length_limit order_less_imp_le)+
      done
    then obtain r2 n2 where l2: "length r2 \<le> BucketSize" and
      rec: "FindClosest_loop d a index (Suc i) r2 n2 = Inr (ret', ndb')" by blast
    have m: "m = index + length (Raw a) * 8 + 1 - Suc i" using Suc.hyps(2) by simp
    from Suc.hyps(1) [OF m rec l2] show ?thesis .
  qed
qed

lemma FindClosest_length:
  "FindClosest d ndb a = Inr (ret, ndb') \<Longrightarrow> length ret \<le> BucketSize"
  by (auto simp: FindClosest_def queryAddresses_def Let_def split: if_splits
           dest: range_query_length_all FindClosest_loop_length)

lemma range_query_empty: "range_query d l p [] ret ndb = Inr (ret, ndb)"
  by simp

lemma FindClosest_loop_empty_buckets:
  assumes "\<And>k. i \<le> k \<Longrightarrow> k \<le> index \<Longrightarrow>
             index - k < length (table ndb) \<and> snd (table ndb ! (index - k)) = 0"
    and "\<And>k. i \<le> k \<Longrightarrow> index + k < length (Raw a) * 8 \<Longrightarrow>
             index + k < length (table ndb) \<and> snd (table ndb ! (index + k)) = 0"
  shows "FindClosest_loop d a index i ret ndb = Inr (ret, ndb)"
  using assms
proof (induction "index + length (Raw a) * 8 + 1 - i" arbitrary: i)
  case 0
  then have "\<not> (i \<le> index \<or> index + i \<le> length (Raw a) * 8)" by simp
  then show ?case by (subst FindClosest_loop.simps) simp
next
  case (Suc m)
  have ih: "FindClosest_loop d a index (Suc i) ret ndb = Inr (ret, ndb)"
  proof (rule Suc.hyps(1))
    show "m = index + length (Raw a) * 8 + 1 - Suc i" using Suc.hyps(2) by simp
  next
    fix k assume "Suc i \<le> k" "k \<le> index"
    then show "index - k < length (table ndb) \<and> snd (table ndb ! (index - k)) = 0"
      using Suc.prems(1) [of k] by simp
  next
    fix k assume "Suc i \<le> k" "index + k < length (Raw a) * 8"
    then show "index + k < length (table ndb) \<and> snd (table ndb ! (index + k)) = 0"
      using Suc.prems(2) [of k] by simp
  qed
  show ?case
    apply (subst FindClosest_loop.simps)
    using Suc.prems(1) [of i] Suc.prems(2) [of i] ih
    by (auto simp: Let_def)
qed


lemma example_Address_String_eq: "Address_String example_deps a = (address_string a, None)"
  by (simp add: example_deps_def address_string_def)

lemma address_string_neq: "address_string zero_address \<noteq> address_string (address_of_byte 1)"
  "address_string (address_of_byte 1) \<noteq> address_string zero_address"
  by code_simp+

lemma example_DecodeAddress: "DecodeAddress example_deps (address_string zero_address) = Inr zero_address"
  "DecodeAddress example_deps (address_string (address_of_byte 1)) = Inr (address_of_byte 1)"
  by code_simp+

lemma example_addresses_neq: "zero_address \<noteq> (address_of_byte 1)" "(address_of_byte 1) \<noteq> zero_address"
  by code_simp+

lemma example_indexes: "LeadingZeroes (Xor zero_address (address_of_byte 128)) = 0"
  "LeadingZeroes (Xor (address_of_byte 1) (address_of_byte 128)) = 0"
  by code_simp+

lemma insertIntoTable_example_state:
  assumes "LeadingZeroes (Xor a (address_of_byte 128)) = 0" and "q < length arrs"
  shows "insertIntoTable (example_state arrs (160 + q, n) db) a =
     (let arr = arrs ! q;
          (arr', n') = (case find_address a (take n arr) of
                          Some f \<Rightarrow> (shift_out f n arr, n - 1)
                        | None \<Rightarrow> if n = BucketSize then (arr, n - 1) else (arr, n))
      in Inr (example_state (arrs[q := arr'] @ [a # take n' arr']) (160 + length arrs, Suc n') db))"
  using assms
  by (simp add: insertIntoTable_def example_state_def Let_def nth_append list_update_append
        split: option.splits prod.splits)


lemma conn_example_state [simp]: "conn (example_state arrs sl db) = db"
  by (simp add: example_state_def)

lemma example_no_seeds:
  "addSeedToEntry example_deps (example_state arrs sl two_entry_DB) e i =
     (e\<lparr>Seeding := [], Seeds := []\<rparr>, None)"
  by (simp add: addSeedToEntry_def querySeeds_def querySeeding_def sqlQuerySeeds_def
        sqlQuerySeeding_def two_entry_DB_def)

lemma example_row_zero: "sqlQueryAddress two_entry_DB (address_string zero_address) = Inr (row_of 1 example_entry)"
  using address_string_neq
  by (simp add: sqlQueryAddress_def two_entry_DB_def row_of_def example_entry_def
        example_entry2_def zero_address_def)

lemma example_row_one: "sqlQueryAddress two_entry_DB (address_string (address_of_byte 1)) = Inr (row_of 2 example_entry2)"
  using address_string_neq
  by (simp add: sqlQueryAddress_def two_entry_DB_def row_of_def example_entry_def
        example_entry2_def zero_address_def)

lemma Query_zero:
  "NetDB_Query example_deps (example_state arrs sl two_entry_DB) zero_address =
     (case insertIntoTable (example_state arrs sl two_entry_DB) zero_address of
        Inl pnc \<Rightarrow> Inl pnc
      | Inr ndb' \<Rightarrow> Inr ((Some example_entry, 1, None), ndb'))"
proof -
  have r: "r_address (row_of 1 example_entry) = address_string zero_address"
    by (simp add: row_of_def example_entry_def zero_address_def)
  have e: "\<lparr>Address = \<lparr>Raw = Raw zero_address\<rparr>, Name = r_name (row_of 1 example_entry),
          Desc = r_desc (row_of 1 example_entry),
          PublicAddress = r_publicAddress (row_of 1 example_entry),
          PublicKey = r_publicKey (row_of 1 example_entry),
          PostCount = r_postCount (row_of 1 example_entry),
          Updated = r_updated (row_of 1 example_entry),
          Signature = r_signature (row_of 1 example_entry),
          CollectionHash = r_collectionHash (row_of 1 example_entry),
          Port = r_port (row_of 1 example_entry), Seeds = [], Seeding = [],
          Seen = r_seen (row_of 1 example_entry)\<rparr> = example_entry"
    by (simp add: row_of_def example_entry_def zero_address_def)
  have a: "Address example_entry = zero_address"
    by (simp add: example_entry_def zero_address_def)
  have u: "example_entry\<lparr>Seeding := [], Seeds := []\<rparr> = example_entry"
    by (simp add: example_entry_def)
  have i: "r_id (row_of 1 example_entry) = 1" by (simp add: row_of_def)
  show ?thesis
    unfolding NetDB_Query_def example_Address_String_eq
    by (simp add: example_row_zero r example_DecodeAddress example_no_seeds e a u i Let_def split: sum.splits)
qed

lemma Query_one:
  "NetDB_Query example_deps (example_state arrs sl two_entry_DB) (address_of_byte 1) =
     (case insertIntoTable (example_state arrs sl two_entry_DB) (address_of_byte 1) of
        Inl pnc \<Rightarrow> Inl pnc
      | Inr ndb' \<Rightarrow> Inr ((Some example_entry2, 2, None), ndb'))"
proof -
  have r: "r_address (row_of 2 example_entry2) = address_string (address_of_byte 1)"
    by (simp add: row_of_def example_entry2_def)
  have e: "\<lparr>Address = \<lparr>Raw = Raw (address_of_byte 1)\<rparr>, Name = r_name (row_of 2 example_entry2),
          Desc = r_desc (row_of 2 example_entry2),
          PublicAddress = r_publicAddress (row_of 2 example_entry2),
          PublicKey = r_publicKey (row_of 2 example_entry2),
          PostCount = r_postCount (row_of 2 example_entry2),
          Updated = r_updated (row_of 2 example_entry2),
          Signature = r_signature (row_of 2 example_entry2),
          CollectionHash = r_collectionHash (row_of 2 example_entry2),
          Port = r_port (row_of 2 example_entry2), Seeds = [], Seeding = [],
          Seen = r_seen (row_of 2 example_entry2)\<rparr> = example_entry2"
    by (simp add: row_of_def example_entry2_def example_entry_def)
  have a: "Address example_entry2 = (address_of_byte 1)"
    by (simp add: example_entry2_def)
  have u: "example_entry2\<lparr>Seeding := [], Seeds := []\<rparr> = example_entry2"
    by (simp add: example_entry2_def example_entry_def)
  have i: "r_id (row_of 2 example_entry2) = 2" by (simp add: row_of_def)
  show ?thesis
    unfolding NetDB_Query_def example_Address_String_eq
    by (simp add: example_row_one r example_DecodeAddress example_no_seeds e a u i Let_def split: sum.splits)
qed

lemma upt_0_2: "[0..<2] = [0, Suc 0]"
  by (simp add: upt_rec)

lemma first_pass:
  "range_query example_deps (Some BucketSize) 161 [0..<2] []
     (example_state [ [zero_address], [(address_of_byte 1), zero_address] ] (161, 2) two_entry_DB) =
   Inr ([Some example_entry2, Some example_entry],
        example_state [ [zero_address], [zero_address, zero_address], [(address_of_byte 1), zero_address], [zero_address, (address_of_byte 1)] ] (163, 2) two_entry_DB)"
proof -
  have i1: "insertIntoTable (example_state [ [zero_address], [(address_of_byte 1), zero_address] ] (161, 2) two_entry_DB) (address_of_byte 1) =
      Inr (example_state [ [zero_address], [zero_address, zero_address], [(address_of_byte 1), zero_address] ] (162, 2) two_entry_DB)"
    using insertIntoTable_example_state [OF example_indexes(2), of 1 "[ [zero_address], [(address_of_byte 1), zero_address] ]" 2 two_entry_DB]
    by (simp add: shift_out_def numeral_2_eq_2)
  have i2: "insertIntoTable (example_state [ [zero_address], [zero_address, zero_address], [(address_of_byte 1), zero_address] ] (162, 2) two_entry_DB) zero_address =
      Inr (example_state [ [zero_address], [zero_address, zero_address], [(address_of_byte 1), zero_address], [zero_address, (address_of_byte 1)] ] (163, 2) two_entry_DB)"
    using insertIntoTable_example_state [OF example_indexes(1), of 2 "[ [zero_address], [zero_address, zero_address], [(address_of_byte 1), zero_address] ]" 2 two_entry_DB]
      example_addresses_neq
    by (simp add: shift_out_def BucketSize_def numeral_2_eq_2)
  have r1: "arrays (example_state [ [zero_address], [(address_of_byte 1), zero_address] ] (161, 2) two_entry_DB) ! 161 ! 0 = (address_of_byte 1)"
    by (simp add: example_state_def nth_append)
  have r2: "arrays (example_state [ [zero_address], [zero_address, zero_address], [(address_of_byte 1), zero_address] ] (162, 2) two_entry_DB) ! 161 ! Suc 0 = zero_address"
    by (simp add: example_state_def nth_append)
  show ?thesis
    unfolding upt_0_2
    by (simp add: r1 r2 Query_one Query_zero i1 i2 BucketSize_def)
qed


lemma second_pass:
  "range_query example_deps (Some BucketSize) 163 [0..<2] [Some example_entry2, Some example_entry]
     (example_state [ [zero_address], [zero_address, zero_address], [(address_of_byte 1), zero_address], [zero_address, (address_of_byte 1)] ] (163, 2) two_entry_DB) =
   Inr ([Some example_entry2, Some example_entry, Some example_entry, Some example_entry2],
        example_state [ [zero_address], [zero_address, zero_address], [(address_of_byte 1), zero_address], [(address_of_byte 1), (address_of_byte 1)], [zero_address, (address_of_byte 1)], [(address_of_byte 1), zero_address] ] (165, 2)
          two_entry_DB)"
proof -
  have i1: "insertIntoTable (example_state [ [zero_address], [zero_address, zero_address], [(address_of_byte 1), zero_address], [zero_address, (address_of_byte 1)] ] (163, 2) two_entry_DB) zero_address =
      Inr (example_state [ [zero_address], [zero_address, zero_address], [(address_of_byte 1), zero_address], [(address_of_byte 1), (address_of_byte 1)], [zero_address, (address_of_byte 1)] ] (164, 2) two_entry_DB)"
    using insertIntoTable_example_state
            [OF example_indexes(1), of 3 "[ [zero_address], [zero_address, zero_address], [(address_of_byte 1), zero_address], [zero_address, (address_of_byte 1)] ]" 2 two_entry_DB]
    by (simp add: shift_out_def numeral_2_eq_2)
  have i2: "insertIntoTable (example_state [ [zero_address], [zero_address, zero_address], [(address_of_byte 1), zero_address], [(address_of_byte 1), (address_of_byte 1)], [zero_address, (address_of_byte 1)] ] (164, 2) two_entry_DB) (address_of_byte 1) =
      Inr (example_state [ [zero_address], [zero_address, zero_address], [(address_of_byte 1), zero_address], [(address_of_byte 1), (address_of_byte 1)], [zero_address, (address_of_byte 1)], [(address_of_byte 1), zero_address] ] (165, 2) two_entry_DB)"
    using insertIntoTable_example_state
            [OF example_indexes(2), of 4 "[ [zero_address], [zero_address, zero_address], [(address_of_byte 1), zero_address], [(address_of_byte 1), (address_of_byte 1)], [zero_address, (address_of_byte 1)] ]" 2 two_entry_DB]
      example_addresses_neq
    by (simp add: shift_out_def BucketSize_def numeral_2_eq_2)
  have r1: "arrays (example_state [ [zero_address], [zero_address, zero_address], [(address_of_byte 1), zero_address], [zero_address, (address_of_byte 1)] ] (163, 2) two_entry_DB) ! 163 ! 0 = zero_address"
    by (simp add: example_state_def nth_append)
  have r2: "arrays (example_state [ [zero_address], [zero_address, zero_address], [(address_of_byte 1), zero_address], [(address_of_byte 1), (address_of_byte 1)], [zero_address, (address_of_byte 1)] ] (164, 2) two_entry_DB) ! 163 ! Suc 0 = (address_of_byte 1)"
    by (simp add: example_state_def nth_append)
  show ?thesis
    unfolding upt_0_2
    by (simp add: r1 r2 Query_one Query_zero i1 i2 BucketSize_def)
qed

lemma example_state_table:
  "table (example_state arrs sl db) ! 0 = sl"
  "length (table (example_state arrs sl db)) = 160"
  "0 < k \<Longrightarrow> k < 160 \<Longrightarrow> table (example_state arrs sl db) ! k = (k, 0)"
  "addr (example_state arrs sl db) = address_of_byte 128"
  "table (example_state arrs sl db) \<noteq> []"
  by (auto simp: example_state_def nth_Cons split: nat.splits)

lemma FindClosest_two_entries:
  assumes ix: "LeadingZeroes (Xor a (address_of_byte 128)) = 0" and len: "length (Raw a) = 20"
  shows "FindClosest example_deps two_entry_NetDB a =
     Inr ([Some example_entry2, Some example_entry, Some example_entry, Some example_entry2],
          walked_NetDB)"
proof -
  let ?ret = "[Some example_entry2, Some example_entry, Some example_entry, Some example_entry2]"
  have l: "length (Raw a) * 8 = 160" using len by simp
  have nz: "Raw a \<noteq> []" using len by auto
  have rest: "FindClosest_loop example_deps a 0 (Suc 0) ?ret walked_NetDB =
      Inr (?ret, walked_NetDB)"
    unfolding walked_NetDB_def
    by (rule FindClosest_loop_empty_buckets) (simp_all add: l example_state_table)
  have loop: "FindClosest_loop example_deps a 0 0 [] two_entry_NetDB = Inr (?ret, walked_NetDB)"
    apply (subst FindClosest_loop.simps)
    apply (simp add: l nz two_entry_NetDB_def example_state_table first_pass second_pass
             rest [unfolded walked_NetDB_def])
    apply (simp add: BucketSize_def walked_NetDB_def)
    done
  show ?thesis
    by (simp add: FindClosest_def ix loop two_entry_NetDB_def example_state_table BucketSize_def
          loop [unfolded two_entry_NetDB_def])
qed

lemma example_entry_closer: "Less (Xor (Address example_entry) zero_address) (Xor (Address example_entry2) zero_address)"
  by code_simp


lemma example_NetDB_state: "example_NetDB = example_state [] (0, 0) empty_DB"
  by (simp add: example_NetDB_def NewNetDB_def example_state_def AddressBinarySize_def upt_rec [of 0])

lemma Verify_example2: "Verify example_deps (Some example_entry2) = None"
  by (simp add: Verify_None_iff earlier_checks_def example_deps_def example_entry2_def
        example_entry_def address_of_byte_def)

lemma first_insertIntoTable:
  "insertIntoTable (example_state [] (0, 0) db) zero_address =
     Inr (example_state [ [zero_address] ] (160, Suc 0) db)"
  using example_indexes(1)
  by (simp add: insertIntoTable_def example_state_def Let_def BucketSize_def
        list_update_same_conv)

lemma no_entry_seeds:
  "insertEntrySeeds d ndb example_entry = (None, ndb)"
  "insertEntrySeeds d ndb example_entry2 = (None, ndb)"
  by (simp_all add: insertEntrySeeds_def example_entry_def example_entry2_def)

lemma Insert_first:
  "Insert example_deps example_NetDB example_entry =
     Inr ((1, None), example_state [ [zero_address] ] (160, Suc 0) one_entry_DB)"
proof -
  have a: "Address example_entry = zero_address"
    by (simp add: example_entry_def zero_address_def)
  have u: "Update example_deps (example_state [ [zero_address] ] (160, Suc 0) empty_DB) example_entry =
      ((0, None), example_state [ [zero_address] ] (160, Suc 0) empty_DB)"
    by (simp add: Update_def Verify_example example_Address_String_eq sqlUpdateEntry_def empty_DB_def example_state_def)
  have i: "insertIntoDB example_deps (example_state [ [zero_address] ] (160, Suc 0) empty_DB) example_entry =
      ((1, None), example_state [ [zero_address] ] (160, Suc 0) one_entry_DB)"
    by (simp add: insertIntoDB_def example_Address_String_eq sqlInsertEntry_def sqlInsertFtsEntry_def empty_DB_def
          one_entry_DB_def next_id_def row_of_def example_state_def)
       (simp add: example_entry_def)
  show ?thesis
    unfolding example_NetDB_state
    by (simp add: Insert_def Verify_example a first_insertIntoTable u i no_entry_seeds)
qed

lemma Insert_second:
  "Insert example_deps (example_state [ [zero_address] ] (160, Suc 0) one_entry_DB) example_entry2 =
     Inr ((1, None), two_entry_NetDB)"
proof -
  have a: "Address example_entry2 = (address_of_byte 1)"
    by (simp add: example_entry2_def)
  have t: "insertIntoTable (example_state [ [zero_address] ] (160, Suc 0) one_entry_DB) (address_of_byte 1) =
      Inr (example_state [ [zero_address], [(address_of_byte 1), zero_address] ] (161, 2) one_entry_DB)"
    using insertIntoTable_example_state [OF example_indexes(2), of 0 "[ [zero_address] ]" "Suc 0" one_entry_DB] example_addresses_neq
    by (simp add: BucketSize_def numeral_2_eq_2 Let_def)
  have r: "r_address (row_of 1 example_entry) = address_string zero_address"
    by (simp add: row_of_def example_entry_def zero_address_def)
  have u: "Update example_deps (example_state [ [zero_address], [(address_of_byte 1), zero_address] ] (161, 2) one_entry_DB) example_entry2 =
      ((0, None), example_state [ [zero_address], [(address_of_byte 1), zero_address] ] (161, 2) one_entry_DB)"
    using address_string_neq
    by (simp add: Update_def Verify_example2 example_Address_String_eq a sqlUpdateEntry_def one_entry_DB_def
          example_state_def r)
  have i: "insertIntoDB example_deps (example_state [ [zero_address], [(address_of_byte 1), zero_address] ] (161, 2) one_entry_DB) example_entry2 =
      ((1, None), example_state [ [zero_address], [(address_of_byte 1), zero_address] ] (161, 2) two_entry_DB)"
    using address_string_neq
    by (simp add: insertIntoDB_def example_Address_String_eq a sqlInsertEntry_def sqlInsertFtsEntry_def
          one_entry_DB_def two_entry_DB_def next_id_def example_state_def r)
       (simp add: row_of_def example_entry2_def example_entry_def)
  show ?thesis
    by (simp add: Insert_def Verify_example2 a t u i no_entry_seeds two_entry_NetDB_def)
qed


text \<open>
  C1. \<^verbatim>\<open>FindClosest\<close> returns at most 20 entries (\<open>FindClosest_length\<close>), but it
  does not sort them: it returns the entries in the order in which it walks the buckets,
  and it walks the bucket of the target twice. On the example node, after the insertion
  of the two example entries, \<^verbatim>\<open>FindClosest\<close> for the address of the first entry
  returns the second entry, the first, the first again and the second again, although
  the first entry is strictly closer to the target than the second.
\<close>

theorem FindClosest_returns_unsorted_duplicates:
  "Insert example_deps example_NetDB example_entry = Inr ((1, None), one_entry_NetDB) \<and>
   Insert example_deps one_entry_NetDB example_entry2 = Inr ((1, None), two_entry_NetDB) \<and>
   (case FindClosest example_deps two_entry_NetDB zero_address of
      Inl pnc \<Rightarrow> False
    | Inr (ret, ndb') \<Rightarrow>
        ret = [Some example_entry2, Some example_entry, Some example_entry, Some example_entry2]) \<and>
   Less (Xor (Address example_entry) zero_address) (Xor (Address example_entry2) zero_address)"
  using Insert_first Insert_second FindClosest_two_entries [OF example_indexes(1)]
    example_entry_closer
  by (simp add: one_entry_NetDB_def zero_address_def)


section \<open>Properties of the client\<close>

lemma conn_Read_consumes:
  "conn_Read R k = ((bs, err), R') \<Longrightarrow> pending R = length bs + pending R' \<and> length bs \<le> k"
  by (induction R k rule: conn_Read.induct) (auto split: if_splits)

lemma LimitedReader_Read_consumes:
  assumes "LimitedReader_Read N R k = ((bs, err), N', R')"
  shows "pending R = length bs + pending R' \<and> N' = N - int (length bs) \<and>
         (0 \<le> N \<longrightarrow> 0 \<le> N') \<and> (N \<le> 0 \<longrightarrow> bs = [])"
proof (cases "N \<le> 0")
  case True
  with assms show ?thesis by (simp add: LimitedReader_Read_def)
next
  case False
  obtain k' where k': "k' = (if int k > N then nat N else k)" by simp
  obtain b e r where c: "conn_Read R k' = ((b, e), r)" by (metis prod.exhaust)
  from conn_Read_consumes [OF c] have p: "pending R = length b + pending r" "length b \<le> k'" by simp_all
  from assms False k' c have "bs = b" "N' = N - int (length b)" "R' = r"
    by (auto simp: LimitedReader_Read_def Let_def)
  moreover have "int (length b) \<le> N" using p(2) k' False by (auto split: if_splits)
  ultimately show ?thesis using p False by simp
qed

lemma run_decoding_consumes:
  "run_decoding dc N R = (res, N', R') \<Longrightarrow>
   pending R' \<le> pending R \<and> int (pending R) - int (pending R') \<le> max 0 N"
proof (induction dc arbitrary: N R)
  case (Decoded r s)
  then show ?case by auto
next
  case (Read k cont)
  obtain bs err N1 R1 where l: "LimitedReader_Read N R k = ((bs, err), N1, R1)"
    by (metis prod.exhaust)
  with Read.prems have r: "run_decoding (cont (bs, err)) N1 R1 = (res, N', R')" by simp
  have "cont (bs, err) \<in> range cont" by simp
  from Read.IH [OF this r] LimitedReader_Read_consumes [OF l]
  show ?case by (auto simp: max_def split: if_splits)
qed

lemma ReadMessage_budget:
  assumes "0 \<le> mms" and "case limiter c of None \<Rightarrow> True | Some N \<Rightarrow> N \<le> mms"
    and "ReadMessage mms nd Decode c = (r, c')"
  shows "pending (conn_in c') \<le> pending (conn_in c) \<and>
         int (pending (conn_in c)) - int (pending (conn_in c')) \<le> mms \<and>
         limiter c' = Some mms"
proof -
  define c1 where "c1 = (if limiter c = None then c\<lparr>limiter := Some mms\<rparr> else c)"
  define c2 where "c2 = (if decoder c1 = None then c1\<lparr>decoder := Some nd\<rparr> else c1)"
  obtain res s N R where
    run: "run_decoding (Decode (the (decoder c2))) (the (limiter c2)) (conn_in c2) = ((res, s), N, R)"
    by (metis prod.exhaust)
  have in2: "conn_in c2 = conn_in c" by (simp add: c2_def c1_def)
  have l2: "the (limiter c2) \<le> mms"
    using assms(2) by (auto simp: c2_def c1_def split: option.splits)
  from assms(3) run have c': "conn_in c' = R" "limiter c' = Some mms"
    by (auto simp: ReadMessage_def Let_def c1_def [symmetric] c2_def [symmetric] split: sum.splits)
  from run_decoding_consumes [OF run] in2 l2 assms(1) c' show ?thesis
    by (auto simp: max_def split: if_splits)
qed


text \<open>
  C6. A client made by \<^verbatim>\<open>NewClient\<close> has the budget \<open>max_message_size\<close>. Whatever
  the decoder does, and whatever the connection holds, one call of \<^verbatim>\<open>ReadMessage\<close>
  on a budget of at most \<open>max_message_size\<close> takes at most \<open>max_message_size\<close> bytes
  from the connection, and it leaves the budget at \<open>max_message_size\<close>, after a decoded
  message and after a decoding error alike, so that the next call starts with the full
  budget.
\<close>

theorem ReadMessage_consumes_at_most_max_message_size:
  "limiter (NewClient mms nd i input) = Some mms \<and>
   (0 \<le> mms \<and> (case limiter c of None \<Rightarrow> True | Some N \<Rightarrow> N \<le> mms) \<longrightarrow>
      (case ReadMessage mms nd Decode c of
         (r, c') \<Rightarrow>
           pending (conn_in c') \<le> pending (conn_in c) \<and>
           int (pending (conn_in c)) - int (pending (conn_in c')) \<le> mms \<and>
           limiter c' = Some mms))"
proof (intro conjI impI)
  show "limiter (NewClient mms nd i input) = Some mms"
    by (simp add: NewClient_def)
next
  assume h: "0 \<le> mms \<and> (case limiter c of None \<Rightarrow> True | Some N \<Rightarrow> N \<le> mms)"
  obtain r c' where r: "ReadMessage mms nd Decode c = (r, c')"
    by (cases "ReadMessage mms nd Decode c")
  from h have "0 \<le> mms" and "case limiter c of None \<Rightarrow> True | Some N \<Rightarrow> N \<le> mms"
    by simp_all
  from ReadMessage_budget [OF this r] r
  show "case ReadMessage mms nd Decode c of
         (r, c') \<Rightarrow>
           pending (conn_in c') \<le> pending (conn_in c) \<and>
           int (pending (conn_in c)) - int (pending (conn_in c')) \<le> mms \<and>
           limiter c' = Some mms"
    by simp
qed

theorem ReadMessage_consumes_at_most_max_message_size_witness:
  "(0::int) \<le> 3 \<and>
   (case limiter example_Client of None \<Rightarrow> True | Some N \<Rightarrow> N \<le> 3) \<and>
   pending (conn_in example_Client) = 5 \<and>
   (case ReadMessage 3 () example_Decode example_Client of
      (r, c') \<Rightarrow>
        pending (conn_in c') = 2 \<and>
        int (pending (conn_in example_Client)) - int (pending (conn_in c')) \<le> 3 \<and>
        limiter c' = Some 3)"
proof -
  have l: "case limiter example_Client of None \<Rightarrow> True | Some N \<Rightarrow> N \<le> 3"
    by (simp add: example_Client_def NewClient_def)
  have p: "pending (conn_in example_Client) = 5"
    by (simp add: example_Client_def NewClient_def)
  have q: "pending (conn_in (snd (ReadMessage 3 () example_Decode example_Client))) = 2"
    by (simp add: ReadMessage_def example_Client_def NewClient_def example_Decode_def
          LimitedReader_Read_def Let_def)
  from ReadMessage_consumes_at_most_max_message_size
         [of 3 "()" 7 "[Data [1, 2, 3, 4, 5] ]" example_Client example_Decode] l p q
  show ?thesis
    by (auto split: prod.splits)
qed

section \<open>Properties of the query handler\<close>

lemma DHT_Query_absent:
  assumes "Address_String d a = (s, None)" and "failing (conn ndb) = None"
    and "rows_of ndb s = []"
  shows "DHT_Query d ndb a = Inr ((None, None), ndb)"
  using assms
  by (simp add: DHT_Query_def NetDB_Query_def sqlQueryAddress_def rows_of_def)

lemma HandleQuery_absent:
  assumes "Read_Address cd (Content msg) = Inr a" and "a \<noteq> lp_Address lp"
    and "DHT_Query d (DHT lp) a = Inr ((None, None), ndb)" and "conn_err c = None"
  shows "HandleQuery d cd lp msg (Some c) =
     (let no = \<lparr> Header = ProtoNo, Content = [], Stream = None, From = None \<rparr> in
      case Write_Entry cd None of
        Inl err \<Rightarrow> Inr (Some err, lp\<lparr>DHT := ndb\<rparr>, Some (c\<lparr>conn_out := conn_out c @ [no]\<rparr>))
      | Inr content \<Rightarrow>
          Inr (None, lp\<lparr>DHT := ndb\<rparr>,
               Some (c\<lparr>conn_out := conn_out c @
                  [no, \<lparr> Header = ProtoDhtQuery, Content = content, Stream = None,
                         From = None \<rparr>]\<rparr>)))"
  using assms
  by (simp add: HandleQuery_def Let_def split: sum.splits)

lemma Client_Query_no:
  assumes "Write_Address cd a = Inr content" and "conn_err c = None"
    and "ReadMessage mms nd Decode
           (c\<lparr>conn_out := conn_out c @
              [\<lparr> Header = ProtoDhtQuery, Content = content, Stream = None, From = None \<rparr>]\<rparr>) =
         ((Some er, None), c')"
    and "Header er = ProtoNo"
  shows "Client_Query d cd mms nd Decode c a =
           ((None, Some (errors_New ''Peer returned no'')), c')"
  using assms by (simp add: Client_Query_def query_reply_def Let_def)

text \<open>
  C7. For a query of an address that is not the local peer's and has no row in the
  NetDB, \<^verbatim>\<open>HandleQuery\<close> writes the message \<open>no\<close> and then goes on, since the branch
  does not return: it encodes the nil entry and writes a second message with the header
  \<open>dht.query\<close>. On the example peer with its empty store the stream receives two
  replies. A client whose \<^verbatim>\<open>ReadMessage\<close> returns the first of them fails with the
  error \<open>Peer returned no\<close> (\<open>Client_Query_no\<close>).
\<close>

theorem HandleQuery_absent_address_writes_two_messages:
  "case HandleQuery example_deps example_codec example_LocalPeer example_query
          (Some example_Client) of
     Inr (err, lp, Some c') \<Rightarrow>
       err = None \<and>
       conn_out c' =
         [\<lparr> Header = ProtoNo, Content = [], Stream = None, From = None \<rparr>,
          \<lparr> Header = ProtoDhtQuery, Content = [192], Stream = None, From = None \<rparr>]
   | _ \<Rightarrow> False"
proof -
  have r: "Read_Address example_codec (Content example_query) = Inr zero_address"
    by (simp add: example_codec_def example_query_def zero_address_def)
  have "zero_address \<noteq> address_of_byte 128"
    by code_simp
  then have n: "zero_address \<noteq> lp_Address example_LocalPeer"
    by (simp add: example_LocalPeer_def)
  have dht: "DHT example_LocalPeer = example_NetDB"
    by (simp add: example_LocalPeer_def)
  have q: "DHT_Query example_deps (DHT example_LocalPeer) zero_address =
      Inr ((None, None), example_NetDB)"
    unfolding dht
    by (rule DHT_Query_absent [where s = "string_of_bytes (Raw zero_address)"])
       (simp_all add: example_deps_def example_NetDB_def NewNetDB_def empty_DB_def rows_of_def)
  have e: "conn_err example_Client = None" "conn_out example_Client = []"
    by (simp_all add: example_Client_def NewClient_def)
  have w: "Write_Entry example_codec None = Inr [192]"
    by (simp add: example_codec_def)
  from HandleQuery_absent [OF r n q e(1)] show ?thesis
    by (simp add: w e Let_def)
qed


section \<open>Properties of the peer manager\<close>

lemma find_oldest_last:
  "find_oldest seen v k0 =
     (case filter (\<lambda>kt. snd kt < v) seen of [] \<Rightarrow> k0 | x # xs \<Rightarrow> fst (last (x # xs)))"
  by (induction seen v k0 rule: find_oldest.induct) (auto split: list.splits)

lemma example_keys:
  "key_of (address_of_byte 1) \<noteq> key_of (address_of_byte 2)"
  "key_of (address_of_byte 1) \<noteq> key_of (address_of_byte 3)"
  "key_of (address_of_byte 2) \<noteq> key_of (address_of_byte 3)"
  "key_of (address_of_byte 2) \<noteq> key_of (address_of_byte 1)"
  "key_of (address_of_byte 3) \<noteq> key_of (address_of_byte 1)"
  "key_of (address_of_byte 3) \<noteq> key_of (address_of_byte 2)"
  by code_simp+

text \<open>
  C8. The scan of \<^verbatim>\<open>SetPeer\<close> compares every time stamp with the current time and
  never with the oldest one found so far, so it ends on the last peer of the iteration
  whose time stamp is before the current time (\<open>find_oldest_last\<close>), not on the peer
  with the smallest time stamp. With at most 2 peers allowed, the peers P1 and P2 last
  seen at 0 and 1, and P3 set at time 2 and iterated last, \<^verbatim>\<open>SetPeer\<close> terminates
  P3, the peer it has just added, and keeps P1 and P2.
\<close>

theorem SetPeer_evicts_last_iterated_peer:
  "case SetPeer 2 (\<lambda>n. 2 + int n) example_PeerManager (example_Peer 3) of
     None \<Rightarrow> False
   | Some pm \<Rightarrow>
       map fst (peers pm) = [key_of (address_of_byte 1), key_of (address_of_byte 2)] \<and>
       peerSeen pm = [(key_of (address_of_byte 1), 0), (key_of (address_of_byte 2), 1)] \<and>
       terminated pm = [address_of_byte 3]"
  using example_keys
  by (simp add: SetPeer_def example_PeerManager_def example_Peer_def Peer_Entry_def cmap_Has_def
        evict_loop.simps cmap_Count_def cmap_Get_def cmap_Remove_def HandleCloseConnection_def
        Let_def)


lemma Peer_Query_not_nil:
  "Peer_Query d cd p a = (nil_Verifier, err) \<Longrightarrow> err \<noteq> None"
  by (cases "rp_Ping p"; cases "rp_OpenStream p")
     (auto simp: Peer_Query_def Let_def split: prod.splits)

lemma resolveStep_no_recursion:
  "resolveStep d cd dial (Some e) a (Suc n) =
     (case dial e of
        None \<Rightarrow> Inr ((None, Some PeerUnreachable), n)
      | Some peer \<Rightarrow>
          (case Peer_Query d cd peer a of
             (kv, Some err) \<Rightarrow> Inr ((None, Some err), n)
           | (Entry_Verifier entry, None) \<Rightarrow> Inr ((entry, None), n)
           | (nil_Verifier, None) \<Rightarrow> undefined))"
  apply (subst resolveStep.simps)
  apply (auto simp: Let_def split: option.splits prod.splits Verifier.splits dest: Peer_Query_not_nil)
  done


lemma example_addresses2:
  "address_of_byte 2 \<noteq> address_of_byte 128"
  "address_of_byte 1 \<noteq> address_of_byte 3"
  "zero_address \<noteq> address_of_byte 3"
  "address_string (address_of_byte 2) \<noteq> address_string zero_address"
  "address_string (address_of_byte 2) \<noteq> address_string (address_of_byte 1)"
  "LeadingZeroes (Xor (address_of_byte 2) (address_of_byte 128)) = 0"
  by code_simp+

lemma Peer_Query_A:
  "Peer_Query example_deps example_codec peer_A a =
     (Entry_Verifier None, Some (errors_New ''Peer returned no''))"
  by (simp add: Peer_Query_def peer_A_def query_reply_def no_message_def)

lemma Peer_Query_B:
  "Peer_Query example_deps example_codec peer_B (address_of_byte 2) =
     (Entry_Verifier (Some target_entry), None)"
proof -
  have "Verify example_deps (Some target_entry) = None"
    by (simp add: Verify_None_iff earlier_checks_def example_deps_def target_entry_def
          example_entry_def address_of_byte_def)
  then show ?thesis
    by (simp add: Peer_Query_def peer_B_def query_reply_def example_codec_def ProtoNo_def
          ProtoDhtQuery_def target_entry_def address_of_byte_def)
qed

lemma resolveStep_A:
  "Address e \<noteq> address_of_byte 3 \<Longrightarrow> 0 < n \<Longrightarrow>
   resolveStep example_deps example_codec example_dial (Some e) a n =
     Inr ((None, Some (errors_New ''Peer returned no'')), n - 1)"
  by (cases n) (simp_all add: resolveStep_no_recursion example_dial_def Peer_Query_A)

lemma Resolve_chain:
  "Resolve example_deps example_codec example_dial two_entry_LocalPeer (address_of_byte 2) =
     Inr ((None, Some (errors_New ''Address could not be resolved'')),
          two_entry_LocalPeer\<lparr>DHT := walked_NetDB\<rparr>)"
proof -
  have ae: "Address example_entry = zero_address" "Address example_entry2 = address_of_byte 1"
    by (simp_all add: example_entry_def example_entry2_def zero_address_def)
  have r: "rows_of two_entry_NetDB (address_string (address_of_byte 2)) = []"
    using example_addresses2(4,5) example_addresses2(4,5) [symmetric]
    by (simp add: two_entry_NetDB_def rows_of_def two_entry_DB_def row_of_def ae)
  have fl: "failing (conn two_entry_NetDB) = None"
    by (simp add: two_entry_NetDB_def two_entry_DB_def)
  have q: "DHT_Query example_deps two_entry_NetDB (address_of_byte 2) =
      Inr ((None, None), two_entry_NetDB)"
    by (rule DHT_Query_absent [OF example_Address_String_eq fl r])
  have f: "FindClosest example_deps two_entry_NetDB (address_of_byte 2) =
      Inr ([Some example_entry2, Some example_entry, Some example_entry, Some example_entry2],
           walked_NetDB)"
    by (rule FindClosest_two_entries [OF example_addresses2(6)]) (simp add: address_of_byte_def)
  have a1: "Address example_entry \<noteq> address_of_byte 3"
    using example_addresses2(3) by (simp add: example_entry_def zero_address_def)
  have a2: "Address example_entry2 \<noteq> address_of_byte 3"
    using example_addresses2(2) by (simp add: example_entry2_def)
  have loop: "Resolve_loop example_deps example_codec example_dial
      [Some example_entry2, Some example_entry, Some example_entry, Some example_entry2]
      (address_of_byte 2) 6 lp =
      Inr ((None, Some (errors_New ''Address could not be resolved'')), lp)" for lp
    by (simp add: resolveStep_A a1 a2)
  show ?thesis
    using example_addresses2(1)
    by (simp add: Resolve_def two_entry_LocalPeer_def q f loop del: Resolve_loop.simps)
qed


lemma Resolve_loop_unreachable:
  assumes "\<And>e. e \<in> set es \<Longrightarrow> dial e = None"
  shows "Resolve_loop d cd dial (map Some es @ rest) a (length es + m) lp =
         Resolve_loop d cd dial rest a m lp"
  using assms
proof (induction es)
  case Nil
  then show ?case by simp
next
  case (Cons e es)
  then have "dial e = None" by simp
  then have "resolveStep d cd dial (Some e) a (Suc (length es + m)) =
      Inr ((None, Some PeerUnreachable), length es + m)"
    by (simp add: resolveStep_no_recursion)
  with Cons show ?case by simp
qed

lemma Resolve_loop_seventh_sibling:
  assumes "\<And>e. e \<in> set es \<Longrightarrow> dial e = None" and "length es = 6"
  shows "Resolve_loop d cd dial (map Some es @ x # rest) a 6 lp =
         Inr ((None, Some RecursionLimit), lp)"
proof -
  have "Resolve_loop d cd dial (map Some es @ x # rest) a (length es + 0) lp =
         Resolve_loop d cd dial (x # rest) a 0 lp"
    using assms(1) by (rule Resolve_loop_unreachable)
  moreover have "resolveStep d cd dial x a 0 = Inr ((None, Some RecursionLimit), 0)"
    by (subst resolveStep.simps) simp
  ultimately show ?thesis using assms(2) by simp
qed


text \<open>
  C2. \<^verbatim>\<open>resolveStep\<close> returns the error of \<^verbatim>\<open>Peer.Query\<close> when the peer answers
  \<open>no\<close>, and \<^verbatim>\<open>Peer.Query\<close> never returns the nil interface without an error, so
  \<^verbatim>\<open>resolveStep\<close> never asks a peer for its closest entries
  (\<open>resolveStep_no_recursion\<close>): no chain of two or more hops is followed. In the run
  below the closest local entries lead to peers that answer \<open>no\<close> and would return the
  peer B, and B would answer with the entry of the target: \<^verbatim>\<open>Resolve\<close> fails with
  ``Address could not be resolved''. The counter of 6 counts the calls for the closest
  local entries instead (\<open>Resolve_loop_seventh_sibling\<close>).
\<close>

theorem Resolve_does_not_follow_chain:
  "Peer_FindClosest peer_A (address_of_byte 2) = ([Some hop_entry], None) \<and>
   example_dial hop_entry = Some peer_B \<and>
   Peer_Query example_deps example_codec peer_B (address_of_byte 2) =
     (Entry_Verifier (Some target_entry), None) \<and>
   (case Resolve example_deps example_codec example_dial two_entry_LocalPeer (address_of_byte 2) of
      Inl pnc \<Rightarrow> False
    | Inr ((entry, err), lp) \<Rightarrow>
        entry = None \<and> err = Some (errors_New ''Address could not be resolved''))"
  by (simp add: Resolve_chain Peer_Query_B Peer_FindClosest_def peer_A_def example_dial_def
        hop_entry_def)

end
